theory Spec2Isabelle
  imports Main "HOL-Library.Word"
begin

section \<open>Text primitives used by the migration splitter\<close>

text \<open>
  Go strings and byte slices are sequences of bytes; a HOL \<open>string\<close> is a list of
  8-bit characters, so \<open>length\<close> is Go's \<open>len\<close>.
\<close>

definition sqlCmdPrefix :: string where
  "sqlCmdPrefix = ''-- +goose ''"

definition scannerBufSize :: nat where
  "scannerBufSize = 4 * 1024 * 1024"

text \<open>\<open>strings.HasPrefix\<close> / \<open>bytes.HasPrefix\<close> and \<open>strings.HasSuffix\<close>.\<close>

definition hasPrefix :: "string \<Rightarrow> string \<Rightarrow> bool" where
  "hasPrefix s p = (length p \<le> length s \<and> take (length p) s = p)"

definition hasSuffix :: "string \<Rightarrow> string \<Rightarrow> bool" where
  "hasSuffix s p = (length p \<le> length s \<and> drop (length s - length p) s = p)"

text \<open>
  The white space of \<open>bufio.ScanWords\<close> and of \<open>bytes.TrimSpace\<close> is Unicode white
  space, read from UTF-8: U+0009..U+000D, U+0020, U+0085, U+00A0, U+1680,
  U+2000..U+200A, U+2028, U+2029, U+202F, U+205F and U+3000. The list below holds the
  UTF-8 encoding of each. No encoding starts with a continuation byte, so a decoder
  that walks the text rune by rune finds a space exactly where one of these encodings
  starts (or, walking backwards, ends).
\<close>

definition spaceRunes :: "string list" where
  "spaceRunes =
    [[CHR 0x09], [CHR 0x0A], [CHR 0x0B], [CHR 0x0C], [CHR 0x0D], [CHR 0x20],
     [CHR 0xC2, CHR 0x85], [CHR 0xC2, CHR 0xA0],
     [CHR 0xE1, CHR 0x9A, CHR 0x80],
     [CHR 0xE2, CHR 0x80, CHR 0x80], [CHR 0xE2, CHR 0x80, CHR 0x81],
     [CHR 0xE2, CHR 0x80, CHR 0x82], [CHR 0xE2, CHR 0x80, CHR 0x83],
     [CHR 0xE2, CHR 0x80, CHR 0x84], [CHR 0xE2, CHR 0x80, CHR 0x85],
     [CHR 0xE2, CHR 0x80, CHR 0x86], [CHR 0xE2, CHR 0x80, CHR 0x87],
     [CHR 0xE2, CHR 0x80, CHR 0x88], [CHR 0xE2, CHR 0x80, CHR 0x89],
     [CHR 0xE2, CHR 0x80, CHR 0x8A],
     [CHR 0xE2, CHR 0x80, CHR 0xA8], [CHR 0xE2, CHR 0x80, CHR 0xA9],
     [CHR 0xE2, CHR 0x80, CHR 0xAF], [CHR 0xE2, CHR 0x81, CHR 0x9F],
     [CHR 0xE3, CHR 0x80, CHR 0x80]]"

text \<open>Width in bytes of the white-space rune the text starts with; 0 when it starts with none.\<close>

definition spaceWidth :: "string \<Rightarrow> nat" where
  "spaceWidth data =
     (case find (\<lambda>e. hasPrefix data e) spaceRunes of None \<Rightarrow> 0 | Some e \<Rightarrow> length e)"

text \<open>The same for the rune the text ends with.\<close>

definition spaceWidthEnd :: "string \<Rightarrow> nat" where
  "spaceWidthEnd data =
     (case find (\<lambda>e. hasSuffix data e) spaceRunes of None \<Rightarrow> 0 | Some e \<Rightarrow> length e)"

lemma find_Some_holds: "find P xs = Some e \<Longrightarrow> P e"
  by (induction xs) (auto split: if_splits)

lemma spaceWidth_le: "spaceWidth data \<le> length data"
proof (cases "find (\<lambda>e. hasPrefix data e) spaceRunes")
  case None
  then show ?thesis by (simp add: spaceWidth_def)
next
  case (Some e)
  then have "hasPrefix data e" by (rule find_Some_holds)
  with Some show ?thesis by (simp add: spaceWidth_def hasPrefix_def)
qed

lemma spaceWidthEnd_le: "spaceWidthEnd data \<le> length data"
proof (cases "find (\<lambda>e. hasSuffix data e) spaceRunes")
  case None
  then show ?thesis by (simp add: spaceWidthEnd_def)
next
  case (Some e)
  then have "hasSuffix data e" by (rule find_Some_holds)
  with Some show ?thesis by (simp add: spaceWidthEnd_def hasSuffix_def)
qed

function trimLeft :: "string \<Rightarrow> string" where
  "trimLeft data = (if spaceWidth data = 0 then data else trimLeft (drop (spaceWidth data) data))"
  by pat_completeness auto
termination
proof (relation "measure length")
  show "wf (measure length)" by simp
next
  fix data :: string
  assume "spaceWidth data \<noteq> 0"
  moreover have "spaceWidth data \<le> length data" by (rule spaceWidth_le)
  ultimately show "(drop (spaceWidth data) data, data) \<in> measure length" by simp
qed

declare trimLeft.simps [simp del]

function trimRight :: "string \<Rightarrow> string" where
  "trimRight data =
     (if spaceWidthEnd data = 0 then data
      else trimRight (take (length data - spaceWidthEnd data) data))"
  by pat_completeness auto
termination
proof (relation "measure length")
  show "wf (measure length)" by simp
next
  fix data :: string
  assume "spaceWidthEnd data \<noteq> 0"
  moreover have "spaceWidthEnd data \<le> length data" by (rule spaceWidthEnd_le)
  ultimately show "(take (length data - spaceWidthEnd data) data, data) \<in> measure length"
    by simp
qed

declare trimRight.simps [simp del]

text \<open>\<open>bytes.TrimSpace\<close> / \<open>strings.TrimSpace\<close>: leading, then trailing white space.\<close>

definition trimSpace :: "string \<Rightarrow> string" where
  "trimSpace s = trimRight (trimLeft s)"

subsection \<open>\<open>bufio.ScanWords\<close>\<close>

text \<open>Number of bytes before the first white-space rune (the whole text when there is none).\<close>

fun wordLen :: "string \<Rightarrow> nat" where
  "wordLen [] = 0"
| "wordLen (c # cs) = (if spaceWidth (c # cs) \<noteq> 0 then 0 else Suc (wordLen cs))"

lemma wordLen_le: "wordLen data \<le> length data"
  by (induction data) auto

lemma trimLeft_length_le: "length (trimLeft data) \<le> length data"
proof (induction data rule: trimLeft.induct)
  case (1 data)
  show ?case
  proof (cases "spaceWidth data = 0")
    case True
    then show ?thesis by (subst trimLeft.simps) simp
  next
    case False
    with 1 have "length (trimLeft (drop (spaceWidth data) data)) \<le> length data - spaceWidth data"
      by simp
    with False show ?thesis by (subst trimLeft.simps) simp
  qed
qed

lemma trimLeft_no_space: "spaceWidth (trimLeft data) = 0"
proof (induction data rule: trimLeft.induct)
  case (1 data)
  show ?case
  proof (cases "spaceWidth data = 0")
    case True
    then show ?thesis by (subst trimLeft.simps) simp
  next
    case False
    with 1 show ?thesis by (subst trimLeft.simps) simp
  qed
qed

lemma wordLen_pos: "data \<noteq> [] \<Longrightarrow> spaceWidth data = 0 \<Longrightarrow> 0 < wordLen data"
  by (cases data) auto

text \<open>
  The tokens a \<open>bufio.Scanner\<close> with the split function \<open>ScanWords\<close> and a
  buffer of \<open>max\<close> bytes yields on a text held in memory: skip leading white space,
  take bytes up to the next white-space rune, repeat. A word and the white-space rune
  that ends it must lie inside the buffer; a final word with nothing after it is a
  token when it is shorter than the buffer. Otherwise the scanner stops with
  \<open>ErrTooLong\<close> and yields nothing more.
\<close>

function scanWords :: "nat \<Rightarrow> string \<Rightarrow> string list" where
  "scanWords maxTok data =
     (if trimLeft data = [] then []
      else if (wordLen (trimLeft data) < length (trimLeft data)
                 \<and> wordLen (trimLeft data)
                       + spaceWidth (drop (wordLen (trimLeft data)) (trimLeft data)) \<le> maxTok)
               \<or> (wordLen (trimLeft data) = length (trimLeft data)
                     \<and> length (trimLeft data) < maxTok)
      then take (wordLen (trimLeft data)) (trimLeft data)
             # scanWords maxTok (drop (wordLen (trimLeft data)) (trimLeft data))
      else [])"
  by pat_completeness auto
termination
proof (relation "measure (\<lambda>(maxTok, data). length data)")
  show "wf (measure (\<lambda>(maxTok, data). length data))" by simp
next
  fix maxTok :: nat and data :: string
  assume ne: "trimLeft data \<noteq> []"
  have "0 < wordLen (trimLeft data)"
    using ne trimLeft_no_space by (rule wordLen_pos)
  moreover have "wordLen (trimLeft data) \<le> length (trimLeft data)" by (rule wordLen_le)
  moreover have "length (trimLeft data) \<le> length data" by (rule trimLeft_length_le)
  ultimately show "((maxTok, drop (wordLen (trimLeft data)) (trimLeft data)), (maxTok, data))
      \<in> measure (\<lambda>(maxTok, data). length data)"
    by simp
qed

declare scanWords.simps [simp del]

subsection \<open>The statement-terminator test\<close>

text \<open>
  The loop of \<open>endsWithSemicolon\<close>: \<open>prev\<close> is the last word seen; the first word that
  starts with a double dash ends the loop.
\<close>

fun lastWordBeforeComment :: "string list \<Rightarrow> string \<Rightarrow> string" where
  "lastWordBeforeComment [] prev = prev"
| "lastWordBeforeComment (word # rest) prev =
     (if hasPrefix word ''--'' then prev else lastWordBeforeComment rest word)"

text \<open>
  The word scanner gets a buffer of \<open>scannerBufSize\<close> bytes from the pool; its error, if
  any, is not looked at.
\<close>

definition endsWithSemicolon :: "string \<Rightarrow> bool" where
  "endsWithSemicolon line =
     hasSuffix (lastWordBeforeComment (scanWords scannerBufSize line) []) '';''"

text \<open>The tokens of a line that the test looks at: those before the first comment marker.\<close>

definition wordsSeen :: "string \<Rightarrow> string list" where
  "wordsSeen line = takeWhile (\<lambda>w. \<not> hasPrefix w ''--'') (scanWords scannerBufSize line)"

section \<open>The statement splitter\<close>

subsection \<open>Lines of the script: \<open>bufio.ScanLines\<close>\<close>

definition dropCR :: "string \<Rightarrow> string" where
  "dropCR data = (if data \<noteq> [] \<and> last data = CHR 0x0D then butlast data else data)"

text \<open>
  The raw tokens of the line scanner, before \<open>dropCR\<close>: the text up to each newline,
  and what follows the last newline when that is not empty.
\<close>

function scanLines :: "string \<Rightarrow> string list" where
  "scanLines data =
     (if data = [] then []
      else if CHR 0x0A \<in> set data
      then takeWhile (\<lambda>c. c \<noteq> CHR 0x0A) data
             # scanLines (drop (Suc (length (takeWhile (\<lambda>c. c \<noteq> CHR 0x0A) data))) data)
      else [data])"
  by pat_completeness auto
termination
  by (relation "measure length") auto

declare scanLines.simps [simp del]

subsection \<open>Errors, warnings and ways to end\<close>

datatype error =
    Foreign string
  | NotImplemented
  | UnknownDialect string
  | UnsupportedDbstring string
  | FailedToGetDBName error
  | FailedToConnect error

text \<open>
  What the splitter reads from: the bytes the reader delivers, and the error (other
  than end of file) that ends the reading, if there is one.
\<close>

record reader =
  content :: string
  readErr :: "error option"

datatype scan_error = ErrTooLong | ReadFailed error

datatype fatal =
    ScanFailed scan_error
  | NoAnnotations
  | OpenFailed error
  | BeginFailed error

text \<open>\<open>log.Fatal\<close> ends the process; \<open>Returns\<close> is a normal return.\<close>

datatype 'a outcome = Fatal fatal | Returns 'a

datatype warning = UnmatchedStatementBegin | UnfinishedQuery string

subsection \<open>The loop of \<open>getSQLStatements\<close>\<close>

text \<open>
  The local variables of \<open>getSQLStatements\<close>. The two section counters are Go
  \<open>int\<close>s that count lines of the script; they are only compared with 0.
\<close>

record splitter =
  buf :: string
  stmts :: "string list"
  upSections :: nat
  downSections :: nat
  statementEnded :: bool
  ignoreSemicolons :: bool
  directionIsActive :: bool
  tx :: bool

definition initialSplitter :: splitter where
  "initialSplitter =
     \<lparr>buf = [], stmts = [], upSections = 0, downSections = 0, statementEnded = False,
      ignoreSemicolons = False, directionIsActive = False, tx = True\<rparr>"

text \<open>The \<open>switch\<close> on the command of a line that starts with \<open>sqlCmdPrefix\<close>.\<close>

definition applyCmd :: "bool \<Rightarrow> string \<Rightarrow> splitter \<Rightarrow> splitter" where
  "applyCmd direction cmd s =
     (if cmd = ''Up'' then
        s\<lparr>directionIsActive := (direction = True), upSections := upSections s + 1\<rparr>
      else if cmd = ''Down'' then
        s\<lparr>directionIsActive := (direction = False), downSections := downSections s + 1\<rparr>
      else if cmd = ''StatementBegin'' then
        (if directionIsActive s then s\<lparr>ignoreSemicolons := True\<rparr> else s)
      else if cmd = ''StatementEnd'' then
        (if directionIsActive s
         then s\<lparr>statementEnded := (ignoreSemicolons s = True), ignoreSemicolons := False\<rparr>
         else s)
      else if cmd = ''NO TRANSACTION'' then s\<lparr>tx := False\<rparr>
      else s)"

text \<open>The command of a line: what follows the prefix, trimmed.\<close>

definition lineCmd :: "string \<Rightarrow> string" where
  "lineCmd line = trimSpace (drop (length sqlCmdPrefix) line)"

definition handleCmd :: "bool \<Rightarrow> string \<Rightarrow> splitter \<Rightarrow> splitter" where
  "handleCmd direction line s =
     (if hasPrefix line sqlCmdPrefix then applyCmd direction (lineCmd line) s else s)"

text \<open>
  One pass of the loop body on one line. Writing to the \<open>bytes.Buffer\<close> returns no
  error, so the two \<open>log.Fatalf\<close> after the writes are never reached.
\<close>

definition scanLine :: "bool \<Rightarrow> string \<Rightarrow> splitter \<Rightarrow> splitter" where
  "scanLine direction line s =
     (let s1 = handleCmd direction line s in
      if \<not> directionIsActive s1 then s1
      else
        let s2 = s1\<lparr>buf := buf s1 @ line @ [CHR 0x0A]\<rparr> in
        if (\<not> ignoreSemicolons s2 \<and> endsWithSemicolon line) \<or> statementEnded s2
        then s2\<lparr>statementEnded := False, stmts := stmts s2 @ [buf s2], buf := []\<rparr>
        else s2)"

text \<open>
  The loop over the raw lines. A raw line that does not fit the buffer of
  \<open>scannerBufSize\<close> bytes together with its newline ends the scan with
  \<open>ErrTooLong\<close> (\<open>None\<close> here); the lines before it have been handled.
\<close>

fun scanLoop :: "bool \<Rightarrow> string list \<Rightarrow> splitter \<Rightarrow> splitter option" where
  "scanLoop direction [] s = Some s"
| "scanLoop direction (raw # rest) s =
     (if scannerBufSize \<le> length raw then None
      else scanLoop direction rest (scanLine direction (dropCR raw) s))"

text \<open>The warnings logged after the loop.\<close>

definition diagnose :: "splitter \<Rightarrow> warning list" where
  "diagnose s =
     (if ignoreSemicolons s then [UnmatchedStatementBegin] else [])
     @ (if 0 < length (trimSpace (buf s)) then [UnfinishedQuery (trimSpace (buf s))] else [])"

text \<open>
  \<open>getSQLStatements\<close>: the warnings it logs, and either the fatal exit or the
  statements and the transaction flag it returns.
\<close>

definition getSQLStatements :: "reader \<Rightarrow> bool \<Rightarrow> warning list \<times> (string list \<times> bool) outcome" where
  "getSQLStatements r direction =
     (case scanLoop direction (scanLines (content r)) initialSplitter of
        None \<Rightarrow> ([], Fatal (ScanFailed ErrTooLong))
      | Some s \<Rightarrow>
          (case readErr r of
             Some err \<Rightarrow> ([], Fatal (ScanFailed (ReadFailed err)))
           | None \<Rightarrow>
               (if upSections s = 0 \<and> downSections s = 0
                then (diagnose s, Fatal NoAnnotations)
                else (diagnose s, Returns (stmts s, tx s)))))"

section \<open>Dialects\<close>

datatype dialect = PostgresDialect | MySQLDialect | RedshiftDialect | TiDBDialect

text \<open>
  The package variable \<open>dialect\<close> is passed as a value: \<open>GetDialect\<close> reads it,
  \<open>SetDialect\<close> returns its error and the new value of the variable.
\<close>

definition initialDialect :: dialect where
  "initialDialect = PostgresDialect"

definition GetDialect :: "dialect \<Rightarrow> dialect" where
  "GetDialect current = current"

definition SetDialect :: "string \<Rightarrow> dialect \<Rightarrow> error option \<times> dialect" where
  "SetDialect d current =
     (if d = ''postgres'' \<or> d = ''pgx'' then (None, PostgresDialect)
      else if d = ''mysql'' then (None, MySQLDialect)
      else if d = ''redshift'' then (None, RedshiftDialect)
      else if d = ''tidb'' then (None, TiDBDialect)
      else (Some (UnknownDialect d), current))"

subsection \<open>The SQL texts\<close>

definition ddlLines :: "string list \<Rightarrow> string" where
  "ddlLines ls = concat (map (\<lambda>l. l @ [CHR 0x0A]) (butlast ls)) @ last ls"

fun createVersionTableSQL :: "dialect \<Rightarrow> string" where
  "createVersionTableSQL PostgresDialect = ddlLines
     [''CREATE TABLE goose_db_version ('',
      ''            '' @ [CHR 0x09] @ ''id serial NOT NULL,'',
      ''                version_id bigint NOT NULL,'',
      ''                is_applied boolean NOT NULL,'',
      ''                tstamp timestamp NULL default now(),'',
      ''                PRIMARY KEY(id)'',
      ''            );'']"
| "createVersionTableSQL MySQLDialect = ddlLines
     [''CREATE TABLE goose_db_version ('',
      ''                id serial NOT NULL,'',
      ''                version_id bigint NOT NULL,'',
      ''                is_applied boolean NOT NULL,'',
      ''                tstamp timestamp NULL default now(),'',
      ''                PRIMARY KEY(id)'',
      ''            );'']"
| "createVersionTableSQL RedshiftDialect = ddlLines
     [''CREATE TABLE goose_db_version ('',
      ''            '' @ [CHR 0x09] @ ''id integer NOT NULL identity(1, 1),'',
      ''                version_id bigint NOT NULL,'',
      ''                is_applied boolean NOT NULL,'',
      ''                tstamp timestamp NULL default sysdate,'',
      ''                PRIMARY KEY(id)'',
      ''            );'']"
| "createVersionTableSQL TiDBDialect = ddlLines
     [''CREATE TABLE goose_db_version ('',
      ''                id BIGINT UNSIGNED NOT NULL AUTO_INCREMENT UNIQUE,'',
      ''                version_id bigint NOT NULL,'',
      ''                is_applied boolean NOT NULL,'',
      ''                tstamp timestamp NULL default now(),'',
      ''                PRIMARY KEY(id)'',
      ''            );'']"

fun insertVersionSQL :: "dialect \<Rightarrow> string" where
  "insertVersionSQL PostgresDialect =
     ''INSERT INTO goose_db_version (version_id, is_applied) VALUES ($1, $2);''"
| "insertVersionSQL MySQLDialect =
     ''INSERT INTO goose_db_version (version_id, is_applied) VALUES (?, ?);''"
| "insertVersionSQL RedshiftDialect =
     ''INSERT INTO goose_db_version (version_id, is_applied) VALUES ($1, $2);''"
| "insertVersionSQL TiDBDialect =
     ''INSERT INTO goose_db_version (version_id, is_applied) VALUES (?, ?);''"

subsection \<open>The library the dialects call\<close>

text \<open>
  The functions of \<open>net/url\<close>, \<open>regexp\<close> and \<open>database/sql\<close> that the dialects call
  are parameters: \<open>'u\<close> is a parsed URL, \<open>'c\<close> an open database handle, \<open>'r\<close> the rows
  of a query.
  \<^item> \<open>parseRequestURI\<close> is \<open>url.ParseRequestURI\<close>;
  \<open>urlPath\<close> reads the field \<open>Path\<close>;
  \<open>urlStringWithPath u p\<close> is \<open>u.String()\<close> after \<open>u.Path = p\<close>;
  \<^item> \<open>regexpReplaceAll pattern src repl\<close> is
  \<open>regexp.MustCompile(pattern).ReplaceAllString(src, repl)\<close>;
  \<^item> \<open>sqlOpen\<close> is \<open>sql.Open\<close>, \<open>dbQuery\<close> is \<open>db.Query\<close>, \<open>dbExec\<close> is
  \<open>db.Exec\<close> (its error; the result is dropped by every caller).
\<close>

record ('u, 'c, 'r) library =
  parseRequestURI :: "string \<Rightarrow> error + 'u"
  urlPath :: "'u \<Rightarrow> string"
  urlStringWithPath :: "'u \<Rightarrow> string \<Rightarrow> string"
  regexpReplaceAll :: "string \<Rightarrow> string \<Rightarrow> string \<Rightarrow> string"
  sqlOpen :: "string \<Rightarrow> string \<Rightarrow> error + 'c"
  dbQuery :: "'c \<Rightarrow> string \<Rightarrow> error + 'r"
  dbExec :: "'c \<Rightarrow> string \<Rightarrow> error option"

text \<open>\<open>strings.Replace(s, "/", "", -1)\<close>.\<close>

definition removeSlashes :: "string \<Rightarrow> string" where
  "removeSlashes s = filter (\<lambda>c. c \<noteq> CHR ''/'') s"

subsection \<open>The methods that use the library\<close>

definition versionQuerySQL :: string where
  "versionQuerySQL = ''SELECT version_id, is_applied from goose_db_version ORDER BY id DESC''"

fun dbVersionQuery :: "('u, 'c, 'r) library \<Rightarrow> dialect \<Rightarrow> 'c \<Rightarrow> error + 'r" where
  "dbVersionQuery lib PostgresDialect db =
     (case dbQuery lib db versionQuerySQL of Inl err \<Rightarrow> Inl err | Inr rows \<Rightarrow> Inr rows)"
| "dbVersionQuery lib MySQLDialect db =
     (case dbQuery lib db versionQuerySQL of Inl err \<Rightarrow> Inl err | Inr rows \<Rightarrow> Inr rows)"
| "dbVersionQuery lib RedshiftDialect db =
     (case dbQuery lib db versionQuerySQL of Inl err \<Rightarrow> Inl err | Inr rows \<Rightarrow> Inr rows)"
| "dbVersionQuery lib TiDBDialect db =
     (case dbQuery lib db versionQuerySQL of Inl err \<Rightarrow> Inl err | Inr rows \<Rightarrow> Inr rows)"

fun connectToServer :: "('u, 'c, 'r) library \<Rightarrow> dialect \<Rightarrow> string \<Rightarrow> error + 'c" where
  "connectToServer lib PostgresDialect dbstring =
     (case parseRequestURI lib dbstring of
        Inl err \<Rightarrow>
          (if regexpReplaceAll lib ''(dbname=)(.*?)( .*|$)'' dbstring ''dbname=postgres$3''
                = dbstring
           then Inl (UnsupportedDbstring dbstring)
           else sqlOpen lib ''postgres''
                  (regexpReplaceAll lib ''(dbname=)(.*?)( .*|$)'' dbstring ''dbname=postgres$3''))
      | Inr dbURL \<Rightarrow> sqlOpen lib ''postgres'' (urlStringWithPath lib dbURL ''postgres''))"
| "connectToServer lib MySQLDialect dbstring = Inl NotImplemented"
| "connectToServer lib RedshiftDialect dbstring =
     (case parseRequestURI lib dbstring of
        Inl err \<Rightarrow>
          (if regexpReplaceAll lib ''(dbname=)(.*?)( .*|$)'' dbstring ''dbname=postgres$3''
                = dbstring
           then Inl (UnsupportedDbstring dbstring)
           else sqlOpen lib ''postgres''
                  (regexpReplaceAll lib ''(dbname=)(.*?)( .*|$)'' dbstring ''dbname=postgres$3''))
      | Inr dbURL \<Rightarrow> sqlOpen lib ''postgres'' (urlStringWithPath lib dbURL ''postgres''))"
| "connectToServer lib TiDBDialect dbstring = Inl NotImplemented"

fun getDBName :: "('u, 'c, 'r) library \<Rightarrow> dialect \<Rightarrow> string \<Rightarrow> error + string" where
  "getDBName lib PostgresDialect dbstring =
     (case parseRequestURI lib dbstring of
        Inl err \<Rightarrow>
          (if regexpReplaceAll lib ''.*dbname=(.*?)( .*|$)'' dbstring ''$1'' = dbstring
           then Inl (UnsupportedDbstring dbstring)
           else Inr (regexpReplaceAll lib ''.*dbname=(.*?)( .*|$)'' dbstring ''$1''))
      | Inr dbURL \<Rightarrow> Inr (removeSlashes (urlPath lib dbURL)))"
| "getDBName lib MySQLDialect dbstring =
     (case parseRequestURI lib dbstring of
        Inl err \<Rightarrow> Inl err
      | Inr dbURL \<Rightarrow> Inr (removeSlashes (urlPath lib dbURL)))"
| "getDBName lib RedshiftDialect dbstring =
     (case parseRequestURI lib dbstring of
        Inl err \<Rightarrow>
          (if regexpReplaceAll lib ''.*dbname=(.*?)( .*|$)'' dbstring ''$1'' = dbstring
           then Inl (UnsupportedDbstring dbstring)
           else Inr (regexpReplaceAll lib ''.*dbname=(.*?)( .*|$)'' dbstring ''$1''))
      | Inr dbURL \<Rightarrow> Inr (removeSlashes (urlPath lib dbURL)))"
| "getDBName lib TiDBDialect dbstring =
     (case parseRequestURI lib dbstring of
        Inl err \<Rightarrow> Inl err
      | Inr dbURL \<Rightarrow> Inr (removeSlashes (urlPath lib dbURL)))"

subsection \<open>Creating and dropping the database\<close>

definition CreateDB :: "('u, 'c, 'r) library \<Rightarrow> dialect \<Rightarrow> string \<Rightarrow> error option" where
  "CreateDB lib current dbstring =
     (case getDBName lib (GetDialect current) dbstring of
        Inl err \<Rightarrow> Some (FailedToGetDBName err)
      | Inr dbName \<Rightarrow>
          (case connectToServer lib (GetDialect current) dbstring of
             Inl err \<Rightarrow> Some (FailedToConnect err)
           | Inr db \<Rightarrow> dbExec lib db (''CREATE DATABASE '' @ dbName)))"

definition DropDB :: "('u, 'c, 'r) library \<Rightarrow> dialect \<Rightarrow> string \<Rightarrow> error option" where
  "DropDB lib current dbstring =
     (case getDBName lib (GetDialect current) dbstring of
        Inl err \<Rightarrow> Some (FailedToGetDBName err)
      | Inr dbName \<Rightarrow>
          (case connectToServer lib (GetDialect current) dbstring of
             Inl err \<Rightarrow> Some (FailedToConnect err)
           | Inr db \<Rightarrow> dbExec lib db (''DROP DATABASE IF EXISTS '' @ dbName)))"

section \<open>The migration executor\<close>

text \<open>
  The calls \<open>runSQLMigration\<close> makes on the database handle and on the transaction it
  opens, with their arguments. \<open>Exec\<close> is \<open>db.Exec\<close> on the connection; \<open>TxExec\<close>,
  \<open>TxRollback\<close> and \<open>TxCommit\<close> are the methods of the transaction \<open>Begin\<close> returned.
\<close>

datatype arg = Int64Arg "64 word" | BoolArg bool

datatype call =
    Begin
  | TxExec string "arg list"
  | TxRollback
  | TxCommit
  | Exec string "arg list"

text \<open>
  The database answers a call with an error or with success (\<open>None\<close>); its answer may
  depend on every call made before.
\<close>

type_synonym database = "call list \<Rightarrow> call \<Rightarrow> error option"

text \<open>\<open>os.Open\<close> and the reads of the opened file.\<close>

type_synonym filesystem = "string \<Rightarrow> error + reader"

text \<open>
  The two loops over the statements. Each takes the calls made so far and returns the
  error that ended the loop, if any, with the calls made when it ends.
\<close>

fun txExecAll :: "database \<Rightarrow> call list \<Rightarrow> string list \<Rightarrow> error option \<times> call list" where
  "txExecAll db trace [] = (None, trace)"
| "txExecAll db trace (query # rest) =
     (case db trace (TxExec query []) of
        Some err \<Rightarrow> (Some err, trace @ [TxExec query []])
      | None \<Rightarrow> txExecAll db (trace @ [TxExec query []]) rest)"

fun execAll :: "database \<Rightarrow> call list \<Rightarrow> string list \<Rightarrow> error option \<times> call list" where
  "execAll db trace [] = (None, trace)"
| "execAll db trace (query # rest) =
     (case db trace (Exec query []) of
        Some err \<Rightarrow> (Some err, trace @ [Exec query []])
      | None \<Rightarrow> execAll db (trace @ [Exec query []]) rest)"

text \<open>The part of \<open>runSQLMigration\<close> under \<open>if useTx\<close>.\<close>

definition runInTransaction ::
  "database \<Rightarrow> dialect \<Rightarrow> string list \<Rightarrow> 64 word \<Rightarrow> bool \<Rightarrow> error option outcome \<times> call list"
where
  "runInTransaction db current statements v direction =
     (case db [] Begin of
        Some err \<Rightarrow> (Fatal (BeginFailed err), [Begin])
      | None \<Rightarrow>
          (case txExecAll db [Begin] statements of
             (Some err, trace) \<Rightarrow> (Returns (Some err), trace @ [TxRollback])
           | (None, trace) \<Rightarrow>
               (case db trace
                       (TxExec (insertVersionSQL (GetDialect current))
                          [Int64Arg v, BoolArg direction]) of
                  Some err \<Rightarrow>
                    (Returns (Some err),
                     trace @ [TxExec (insertVersionSQL (GetDialect current))
                                [Int64Arg v, BoolArg direction], TxRollback])
                | None \<Rightarrow>
                    (Returns
                       (db (trace @ [TxExec (insertVersionSQL (GetDialect current))
                                       [Int64Arg v, BoolArg direction]]) TxCommit),
                     trace @ [TxExec (insertVersionSQL (GetDialect current))
                                [Int64Arg v, BoolArg direction], TxCommit]))))"

text \<open>The part after it.\<close>

definition runWithoutTransaction ::
  "database \<Rightarrow> dialect \<Rightarrow> string list \<Rightarrow> 64 word \<Rightarrow> bool \<Rightarrow> error option outcome \<times> call list"
where
  "runWithoutTransaction db current statements v direction =
     (case execAll db [] statements of
        (Some err, trace) \<Rightarrow> (Returns (Some err), trace)
      | (None, trace) \<Rightarrow>
          (case db trace
                  (Exec (insertVersionSQL (GetDialect current))
                     [Int64Arg v, BoolArg direction]) of
             Some err \<Rightarrow>
               (Returns (Some err),
                trace @ [Exec (insertVersionSQL (GetDialect current))
                           [Int64Arg v, BoolArg direction]])
           | None \<Rightarrow>
               (Returns None,
                trace @ [Exec (insertVersionSQL (GetDialect current))
                           [Int64Arg v, BoolArg direction]])))"

text \<open>
  \<open>runSQLMigration\<close>: how it ends (a fatal exit, or the error it returns, \<open>None\<close> for
  \<open>nil\<close>) and the calls it made on the database, in order. The warnings the splitter
  logs are not part of this result. The error of \<open>tx.Rollback\<close> is dropped by the
  source, so the database is not asked for it.
\<close>

definition runSQLMigration ::
  "filesystem \<Rightarrow> database \<Rightarrow> dialect \<Rightarrow> string \<Rightarrow> 64 word \<Rightarrow> bool
     \<Rightarrow> error option outcome \<times> call list"
where
  "runSQLMigration fs db current scriptFile v direction =
     (case fs scriptFile of
        Inl err \<Rightarrow> (Fatal (OpenFailed err), [])
      | Inr f \<Rightarrow>
          (case snd (getSQLStatements f direction) of
             Fatal x \<Rightarrow> (Fatal x, [])
           | Returns (statements, useTx) \<Rightarrow>
               (if useTx then runInTransaction db current statements v direction
                else runWithoutTransaction db current statements v direction)))"

section \<open>Notions used in the properties\<close>

subsection \<open>The splitter\<close>

text \<open>The lines the line scanner hands to the loop body.\<close>

definition scriptLines :: "string \<Rightarrow> string list" where
  "scriptLines data = map dropCR (scanLines data)"

text \<open>A line is the directive \<open>cmd\<close>: it starts with the prefix and its command is \<open>cmd\<close>.\<close>

definition isDirective :: "string \<Rightarrow> string \<Rightarrow> bool" where
  "isDirective cmd line = (hasPrefix line sqlCmdPrefix \<and> lineCmd line = cmd)"

text \<open>The direction a section header announces (\<open>True\<close> for Up), if the line is one.\<close>

definition directionCmd :: "string \<Rightarrow> bool option" where
  "directionCmd line =
     (if isDirective ''Up'' line then Some True
      else if isDirective ''Down'' line then Some False
      else None)"

text \<open>
  The section that is open after some lines: the direction of the last section header
  among them, \<open>None\<close> before the first header.
\<close>

definition sectionOf :: "string list \<Rightarrow> bool option" where
  "sectionOf ls =
     foldl (\<lambda>sec l. case directionCmd l of None \<Rightarrow> sec | Some d \<Rightarrow> Some d) None ls"

text \<open>
  The lines that lie in a section of the requested direction, a section starting with
  its header line; \<open>before\<close> holds the lines that precede.
\<close>

fun keptLines :: "bool \<Rightarrow> string list \<Rightarrow> string list \<Rightarrow> string list" where
  "keptLines direction before [] = []"
| "keptLines direction before (l # ls) =
     (if sectionOf (before @ [l]) = Some direction then [l] else [])
     @ keptLines direction (before @ [l]) ls"

text \<open>All the text kept so far: the statements emitted, then the buffer.\<close>

definition keptText :: "splitter \<Rightarrow> string" where
  "keptText s = concat (stmts s) @ buf s"

text \<open>The loop body applied to lines in turn.\<close>

definition scanLinesFrom :: "bool \<Rightarrow> string list \<Rightarrow> splitter \<Rightarrow> splitter" where
  "scanLinesFrom direction ls s = foldl (\<lambda>s l. scanLine direction l s) s ls"

text \<open>
  A \<open>StatementBegin\<close> is open after some lines: among those of them that lie in
  sections of the requested direction and are \<open>StatementBegin\<close> or \<open>StatementEnd\<close>
  directives, the last one is a \<open>StatementBegin\<close>.
\<close>

definition blockOpen :: "bool \<Rightarrow> string list \<Rightarrow> bool" where
  "blockOpen direction ls =
     (filter (\<lambda>l. isDirective ''StatementBegin'' l \<or> isDirective ''StatementEnd'' l)
        (keptLines direction [] ls) \<noteq> []
      \<and> isDirective ''StatementBegin''
          (last (filter (\<lambda>l. isDirective ''StatementBegin'' l \<or> isDirective ''StatementEnd'' l)
                   (keptLines direction [] ls))))"

subsection \<open>Example scripts\<close>

text \<open>The script of the specification's example, as a file read without error.\<close>

definition exampleScript :: string where
  "exampleScript =
     ''-- +goose Up'' @ [CHR 0x0A] @ ''CREATE TABLE t (id int);'' @ [CHR 0x0A]
     @ ''-- +goose Down'' @ [CHR 0x0A] @ ''DROP TABLE t;'' @ [CHR 0x0A]"

definition exampleFile :: reader where
  "exampleFile = \<lparr>content = exampleScript, readErr = None\<rparr>"

text \<open>A script that opts out of the transaction in its Down section.\<close>

definition noTxFile :: reader where
  "noTxFile =
     \<lparr>content = ''-- +goose Up'' @ [CHR 0x0A] @ ''a;'' @ [CHR 0x0A]
                 @ ''-- +goose Down'' @ [CHR 0x0A] @ ''-- +goose NO TRANSACTION'' @ [CHR 0x0A]
                 @ ''b;'' @ [CHR 0x0A],
      readErr = None\<rparr>"

text \<open>
  A script with one explicit block, then the same script cut after the first line of the
  block and after the end of the block, and a script with a \<open>StatementEnd\<close> that no
  \<open>StatementBegin\<close> precedes, cut before it and after it.
\<close>

definition blockFile :: reader where
  "blockFile =
     \<lparr>content = ''-- +goose Up'' @ [CHR 0x0A] @ ''-- +goose StatementBegin'' @ [CHR 0x0A]
                 @ ''a; b;'' @ [CHR 0x0A] @ ''c;'' @ [CHR 0x0A]
                 @ ''-- +goose StatementEnd'' @ [CHR 0x0A] @ ''d;'' @ [CHR 0x0A],
      readErr = None\<rparr>"

definition openBlockFile :: reader where
  "openBlockFile =
     \<lparr>content = ''-- +goose Up'' @ [CHR 0x0A] @ ''-- +goose StatementBegin'' @ [CHR 0x0A]
                 @ ''a; b;'' @ [CHR 0x0A],
      readErr = None\<rparr>"

definition closedBlockFile :: reader where
  "closedBlockFile =
     \<lparr>content = ''-- +goose Up'' @ [CHR 0x0A] @ ''-- +goose StatementBegin'' @ [CHR 0x0A]
                 @ ''a; b;'' @ [CHR 0x0A] @ ''-- +goose StatementEnd'' @ [CHR 0x0A],
      readErr = None\<rparr>"

definition noBlockFile :: reader where
  "noBlockFile =
     \<lparr>content = ''-- +goose Up'' @ [CHR 0x0A] @ ''a'' @ [CHR 0x0A],
      readErr = None\<rparr>"

definition strayEndFile :: reader where
  "strayEndFile =
     \<lparr>content = ''-- +goose Up'' @ [CHR 0x0A] @ ''a'' @ [CHR 0x0A]
                 @ ''-- +goose StatementEnd'' @ [CHR 0x0A],
      readErr = None\<rparr>"

subsection \<open>The executor\<close>

text \<open>The calls that run statements, one after the other, inside and outside a transaction.\<close>

definition txCalls :: "string list \<Rightarrow> call list" where
  "txCalls qs = map (\<lambda>q. TxExec q []) qs"

definition execCalls :: "string list \<Rightarrow> call list" where
  "execCalls qs = map (\<lambda>q. Exec q []) qs"

text \<open>The call that records the version, inside and outside a transaction.\<close>

definition txInsertVersion :: "dialect \<Rightarrow> 64 word \<Rightarrow> bool \<Rightarrow> call" where
  "txInsertVersion current v direction =
     TxExec (insertVersionSQL current) [Int64Arg v, BoolArg direction]"

definition insertVersion :: "dialect \<Rightarrow> 64 word \<Rightarrow> bool \<Rightarrow> call" where
  "insertVersion current v direction =
     Exec (insertVersionSQL current) [Int64Arg v, BoolArg direction]"

text \<open>
  Example inputs: a script of three statements with and without the opt-out, a file
  system that holds one file, a database that accepts every call and one that rejects
  one call.
\<close>

definition threeStatements :: reader where
  "threeStatements =
     \<lparr>content = ''-- +goose Up'' @ [CHR 0x0A] @ ''a;'' @ [CHR 0x0A] @ ''b;'' @ [CHR 0x0A]
                 @ ''c;'' @ [CHR 0x0A],
      readErr = None\<rparr>"

definition threeStatementsNoTx :: reader where
  "threeStatementsNoTx =
     \<lparr>content = ''-- +goose NO TRANSACTION'' @ [CHR 0x0A] @ ''-- +goose Up'' @ [CHR 0x0A]
                 @ ''a;'' @ [CHR 0x0A] @ ''b;'' @ [CHR 0x0A] @ ''c;'' @ [CHR 0x0A],
      readErr = None\<rparr>"

definition oneFile :: "reader \<Rightarrow> filesystem" where
  "oneFile f = (\<lambda>name. Inr f)"

definition acceptingDB :: database where
  "acceptingDB = (\<lambda>trace c. None)"

definition rejectingDB :: "call \<Rightarrow> database" where
  "rejectingDB bad = (\<lambda>trace c. if c = bad then Some (Foreign ''rejected'') else None)"

subsection \<open>Bytes that can start or end a white-space rune\<close>

text \<open>
  The first bytes of the encodings in \<open>spaceRunes\<close>, the single-byte ones among
  them, and the last bytes of the encodings.
\<close>

definition spaceLead :: "char \<Rightarrow> bool" where
  "spaceLead c = (c \<in> set [CHR 0x09, CHR 0x0A, CHR 0x0B, CHR 0x0C, CHR 0x0D, CHR 0x20,
                          CHR 0xC2, CHR 0xE1, CHR 0xE2, CHR 0xE3])"

definition asciiSpace :: "char \<Rightarrow> bool" where
  "asciiSpace c = (c \<in> set [CHR 0x09, CHR 0x0A, CHR 0x0B, CHR 0x0C, CHR 0x0D, CHR 0x20])"

definition spaceTail :: "char \<Rightarrow> bool" where
  "spaceTail c = (c \<in> set [CHR 0x09, CHR 0x0A, CHR 0x0B, CHR 0x0C, CHR 0x0D, CHR 0x20,
                          CHR 0x85, CHR 0xA0, CHR 0x80, CHR 0x81, CHR 0x82, CHR 0x83,
                          CHR 0x84, CHR 0x86, CHR 0x87, CHR 0x88, CHR 0x89, CHR 0x8A,
                          CHR 0xA8, CHR 0xA9, CHR 0xAF, CHR 0x9F])"

section \<open>Properties\<close>

subsection \<open>Evaluating the text primitives\<close>

lemma spaceWidth_Nil: "spaceWidth [] = 0"
  by (simp add: spaceWidth_def spaceRunes_def hasPrefix_def)

lemma spaceWidth_plain: "\<not> spaceLead c \<Longrightarrow> spaceWidth (c # cs) = 0"
  by (simp add: spaceWidth_def spaceRunes_def hasPrefix_def spaceLead_def)

lemma spaceWidth_ascii:
  assumes "asciiSpace c"
  shows "spaceWidth (c # cs) = 1"
proof -
  from assms consider "c = CHR 0x09" | "c = CHR 0x0A" | "c = CHR 0x0B" | "c = CHR 0x0C"
    | "c = CHR 0x0D" | "c = CHR 0x20"
    by (auto simp: asciiSpace_def)
  then show ?thesis
    by cases (simp_all add: spaceWidth_def spaceRunes_def hasPrefix_def)
qed

lemma trimLeft_Nil: "trimLeft [] = []"
  by (subst trimLeft.simps) (simp add: spaceWidth_Nil)

lemma trimLeft_plain: "\<not> spaceLead c \<Longrightarrow> trimLeft (c # cs) = c # cs"
  by (subst trimLeft.simps) (simp add: spaceWidth_plain)

lemma trimLeft_ascii: "asciiSpace c \<Longrightarrow> trimLeft (c # cs) = trimLeft cs"
  by (subst trimLeft.simps) (simp add: spaceWidth_ascii)

lemma scanWords_Nil: "scanWords m [] = []"
  by (subst scanWords.simps) (simp add: trimLeft_Nil)

lemma scanWords_ascii: "asciiSpace c \<Longrightarrow> scanWords m (c # cs) = scanWords m cs"
  by (subst scanWords.simps, subst (2) scanWords.simps) (simp add: trimLeft_ascii)

lemma scanWords_plain:
  "\<not> spaceLead c \<Longrightarrow>
   scanWords m (c # cs) =
     (if (wordLen (c # cs) < length (c # cs)
            \<and> wordLen (c # cs) + spaceWidth (drop (wordLen (c # cs)) (c # cs)) \<le> m)
          \<or> (wordLen (c # cs) = length (c # cs) \<and> length (c # cs) < m)
      then take (wordLen (c # cs)) (c # cs) # scanWords m (drop (wordLen (c # cs)) (c # cs))
      else [])"
  by (subst scanWords.simps) (simp add: trimLeft_plain)

lemma hasSuffix_last: "hasSuffix data e \<Longrightarrow> e \<noteq> [] \<Longrightarrow> data \<noteq> [] \<and> last data = last e"
  by (metis append_take_drop_id hasSuffix_def last_appendR list.size(3) le_zero_eq length_0_conv)

lemma spaceWidthEnd_Nil: "spaceWidthEnd [] = 0"
  by (simp add: spaceWidthEnd_def spaceRunes_def hasSuffix_def)

lemma spaceWidthEnd_plain:
  assumes "data \<noteq> []" and "\<not> spaceTail (last data)"
  shows "spaceWidthEnd data = 0"
proof (cases "find (\<lambda>e. hasSuffix data e) spaceRunes")
  case None
  then show ?thesis by (simp add: spaceWidthEnd_def)
next
  case (Some e)
  then have h: "hasSuffix data e" by (rule find_Some_holds)
  from Some have "e \<in> set spaceRunes"
    by (metis find_Some_iff nth_mem)
  then have "e \<noteq> [] \<and> spaceTail (last e)"
    by (auto simp: spaceRunes_def spaceTail_def)
  with h assms show ?thesis
    using hasSuffix_last by metis
qed

lemma trimRight_Nil: "trimRight [] = []"
  by (subst trimRight.simps) (simp add: spaceWidthEnd_Nil)

lemma trimRight_plain: "data \<noteq> [] \<Longrightarrow> \<not> spaceTail (last data) \<Longrightarrow> trimRight data = data"
  by (subst trimRight.simps) (simp add: spaceWidthEnd_plain)

lemmas text_eval =
  spaceWidth_Nil spaceWidth_plain spaceWidth_ascii trimLeft_Nil trimLeft_plain trimLeft_ascii
  scanWords_Nil scanWords_ascii scanWords_plain trimRight_Nil trimRight_plain
  trimSpace_def spaceLead_def asciiSpace_def spaceTail_def
  hasPrefix_def hasSuffix_def scannerBufSize_def

subsection \<open>Evaluating the splitter\<close>

lemma scanLines_Nil: "scanLines [] = []"
  by (subst scanLines.simps) simp

lemma scanLines_Cons:
  "scanLines (c # cs) =
     (if c = CHR 0x0A then [] # scanLines cs
      else (case scanLines cs of [] \<Rightarrow> [[c]] | l # ls \<Rightarrow> (c # l) # ls))"
proof (cases "c = CHR 0x0A")
  case True
  then show ?thesis by (subst scanLines.simps) simp
next
  case False
  show ?thesis
  proof (cases "CHR 0x0A \<in> set cs")
    case True
    then have "cs \<noteq> []" by auto
    with True False show ?thesis
      by (subst scanLines.simps, subst (2) scanLines.simps) simp
  next
    case notin: False
    with False show ?thesis
      by (subst scanLines.simps, subst (2) scanLines.simps) simp
  qed
qed

lemmas splitter_eval =
  getSQLStatements_def scanLoop.simps scanLine_def Let_def handleCmd_def applyCmd_def
  lineCmd_def sqlCmdPrefix_def endsWithSemicolon_def initialSplitter_def diagnose_def
  dropCR_def scanLines_Nil scanLines_Cons

subsection \<open>The statement-terminator test\<close>

lemma lastWordBeforeComment_takeWhile:
  "lastWordBeforeComment ws prev =
     (if takeWhile (\<lambda>w. \<not> hasPrefix w ''--'') ws = [] then prev
      else last (takeWhile (\<lambda>w. \<not> hasPrefix w ''--'') ws))"
  by (induction ws arbitrary: prev) auto

lemma hasSuffix_empty_semicolon: "\<not> hasSuffix [] '';''"
  by (simp add: hasSuffix_def)

text \<open>
  Claim C7. The statement-terminator test looks at the white-space-delimited tokens of
  the line from left to right, stops at the first token that starts with a double dash,
  and answers true exactly when it has seen a token before stopping and the last one
  seen ends with a semicolon. The line \<open>SELECT 1; -- comment\<close> is recognised as
  terminated; a line whose first token starts with a double dash never is.
\<close>

theorem endsWithSemicolon_scans_tokens:
  "endsWithSemicolon line
     = (wordsSeen line \<noteq> [] \<and> hasSuffix (last (wordsSeen line)) '';'')
   \<and> endsWithSemicolon ''SELECT 1; -- comment''
   \<and> (\<forall>w ws. scanWords scannerBufSize line = w # ws \<and> hasPrefix w ''--''
          \<longrightarrow> \<not> endsWithSemicolon line)"
proof (intro conjI allI impI)
  show "endsWithSemicolon line
     = (wordsSeen line \<noteq> [] \<and> hasSuffix (last (wordsSeen line)) '';'')"
    by (simp add: endsWithSemicolon_def wordsSeen_def lastWordBeforeComment_takeWhile
        hasSuffix_empty_semicolon)
next
  show "endsWithSemicolon ''SELECT 1; -- comment''"
    by (simp add: endsWithSemicolon_def text_eval)
next
  fix w ws
  assume "scanWords scannerBufSize line = w # ws \<and> hasPrefix w ''--''"
  then show "\<not> endsWithSemicolon line"
    by (simp add: endsWithSemicolon_def hasSuffix_empty_semicolon)
qed

theorem endsWithSemicolon_scans_tokens_witness:
  "scanWords scannerBufSize ''-- DROP TABLE t;'' = [''--'', ''DROP'', ''TABLE'', ''t;'']
   \<and> hasPrefix ''--'' ''--''
   \<and> \<not> endsWithSemicolon ''-- DROP TABLE t;''"
proof -
  have a: "scanWords scannerBufSize ''-- DROP TABLE t;'' = [''--'', ''DROP'', ''TABLE'', ''t;'']"
    by (simp add: text_eval)
  have b: "hasPrefix ''--'' ''--''"
    by (simp add: hasPrefix_def)
  have "\<forall>w ws. scanWords scannerBufSize ''-- DROP TABLE t;'' = w # ws \<and> hasPrefix w ''--''
          \<longrightarrow> \<not> endsWithSemicolon ''-- DROP TABLE t;''"
    using endsWithSemicolon_scans_tokens [of "''-- DROP TABLE t;''"] by (elim conjE)
  then have "\<not> endsWithSemicolon ''-- DROP TABLE t;''"
    using a b by (elim allE [of _ "''--''"] allE [of _ "[''DROP'', ''TABLE'', ''t;'']"]) simp
  with a b show ?thesis by simp
qed

subsection \<open>The loop body\<close>

lemma buf_applyCmd: "buf (applyCmd direction cmd s) = buf s"
  by (simp add: applyCmd_def)

lemma stmts_applyCmd: "stmts (applyCmd direction cmd s) = stmts s"
  by (simp add: applyCmd_def)

lemma buf_handleCmd: "buf (handleCmd direction line s) = buf s"
  by (simp add: handleCmd_def buf_applyCmd)

lemma stmts_handleCmd: "stmts (handleCmd direction line s) = stmts s"
  by (simp add: handleCmd_def stmts_applyCmd)

lemma keptText_handleCmd: "keptText (handleCmd direction line s) = keptText s"
  by (simp add: keptText_def buf_handleCmd stmts_handleCmd)

lemma keptText_scanLine:
  "keptText (scanLine direction line s) =
     keptText s @ (if directionIsActive (handleCmd direction line s)
                   then line @ [CHR 0x0A] else [])"
  by (simp add: scanLine_def Let_def keptText_def buf_handleCmd stmts_handleCmd)

lemma directionIsActive_scanLine:
  "directionIsActive (scanLine direction line s)
     = directionIsActive (handleCmd direction line s)"
  by (simp add: scanLine_def Let_def)

lemma directionIsActive_handleCmd:
  "directionIsActive (handleCmd direction line s) =
     (case directionCmd line of None \<Rightarrow> directionIsActive s | Some d \<Rightarrow> d = direction)"
  by (auto simp: handleCmd_def applyCmd_def directionCmd_def isDirective_def)

lemma handleCmd_plain: "\<not> hasPrefix line sqlCmdPrefix \<Longrightarrow> handleCmd direction line s = s"
  by (simp add: handleCmd_def)

lemma tx_scanLine:
  "tx (scanLine direction line s) = (tx s \<and> \<not> isDirective ''NO TRANSACTION'' line)"
  by (auto simp: scanLine_def Let_def handleCmd_def applyCmd_def isDirective_def)

lemma statementEnded_scanLine:
  "\<not> statementEnded s \<Longrightarrow> \<not> statementEnded (scanLine direction line s)"
  by (auto simp: scanLine_def Let_def handleCmd_def applyCmd_def)

subsection \<open>The loop\<close>

lemma scanLinesFrom_Nil: "scanLinesFrom direction [] s = s"
  by (simp add: scanLinesFrom_def)

lemma scanLinesFrom_Cons:
  "scanLinesFrom direction (l # ls) s = scanLinesFrom direction ls (scanLine direction l s)"
  by (simp add: scanLinesFrom_def)

lemma scanLinesFrom_append:
  "scanLinesFrom direction (ls @ ms) s
     = scanLinesFrom direction ms (scanLinesFrom direction ls s)"
  by (simp add: scanLinesFrom_def)

lemma scanLoop_Some_iff:
  "scanLoop direction raws s = Some s' \<longleftrightarrow>
     (\<forall>raw \<in> set raws. length raw < scannerBufSize)
     \<and> s' = scanLinesFrom direction (map dropCR raws) s"
proof (induction raws arbitrary: s)
  case Nil
  show ?case by (auto simp: scanLinesFrom_Nil)
next
  case (Cons raw raws)
  show ?case
  proof (cases "scannerBufSize \<le> length raw")
    case True
    then show ?thesis by auto
  next
    case False
    then show ?thesis by (simp add: Cons.IH scanLinesFrom_Cons)
  qed
qed

lemma sectionOf_snoc:
  "sectionOf (ls @ [l]) = (case directionCmd l of None \<Rightarrow> sectionOf ls | Some d \<Rightarrow> Some d)"
  by (simp add: sectionOf_def split: option.splits)

lemma directionIsActive_scanLinesFrom:
  "directionIsActive (scanLinesFrom direction ls initialSplitter)
     = (sectionOf ls = Some direction)"
proof (induction ls rule: rev_induct)
  case Nil
  show ?case by (simp add: scanLinesFrom_Nil sectionOf_def initialSplitter_def)
next
  case (snoc l ls)
  then show ?case
    by (simp add: scanLinesFrom_append scanLinesFrom_Cons scanLinesFrom_Nil
        directionIsActive_scanLine directionIsActive_handleCmd sectionOf_snoc
        split: option.splits)
qed

lemma tx_scanLinesFrom:
  "tx (scanLinesFrom direction ls s)
     = (tx s \<and> (\<forall>l \<in> set ls. \<not> isDirective ''NO TRANSACTION'' l))"
proof (induction ls arbitrary: s)
  case Nil
  show ?case by (simp add: scanLinesFrom_Nil)
next
  case (Cons l ls)
  show ?case by (auto simp: scanLinesFrom_Cons Cons.IH tx_scanLine)
qed

lemma statementEnded_scanLinesFrom:
  "\<not> statementEnded s \<Longrightarrow> \<not> statementEnded (scanLinesFrom direction ls s)"
proof (induction ls arbitrary: s)
  case Nil
  then show ?case by (simp add: scanLinesFrom_Nil)
next
  case (Cons l ls)
  then show ?case by (simp add: scanLinesFrom_Cons statementEnded_scanLine)
qed

lemma keptText_scanLinesFrom:
  "keptText (scanLinesFrom direction ls (scanLinesFrom direction before initialSplitter))
     = keptText (scanLinesFrom direction before initialSplitter)
       @ concat (map (\<lambda>l. l @ [CHR 0x0A]) (keptLines direction before ls))"
proof (induction ls arbitrary: before)
  case Nil
  show ?case by (simp add: scanLinesFrom_Nil)
next
  case (Cons l ls)
  have step: "scanLine direction l (scanLinesFrom direction before initialSplitter)
                = scanLinesFrom direction (before @ [l]) initialSplitter"
    by (simp add: scanLinesFrom_append scanLinesFrom_Cons scanLinesFrom_Nil)
  have act: "directionIsActive
               (handleCmd direction l (scanLinesFrom direction before initialSplitter))
             = (sectionOf (before @ [l]) = Some direction)"
    using directionIsActive_scanLinesFrom [of direction "before @ [l]"]
    by (simp add: step [symmetric] directionIsActive_scanLine)
  have "keptText (scanLinesFrom direction (l # ls)
                    (scanLinesFrom direction before initialSplitter))
        = keptText (scanLinesFrom direction ls
                      (scanLinesFrom direction (before @ [l]) initialSplitter))"
    by (simp add: scanLinesFrom_Cons step)
  also have "\<dots> = keptText (scanLinesFrom direction (before @ [l]) initialSplitter)
                   @ concat (map (\<lambda>l. l @ [CHR 0x0A]) (keptLines direction (before @ [l]) ls))"
    by (rule Cons.IH)
  also have "keptText (scanLinesFrom direction (before @ [l]) initialSplitter)
             = keptText (scanLinesFrom direction before initialSplitter)
               @ (if sectionOf (before @ [l]) = Some direction then l @ [CHR 0x0A] else [])"
    by (simp add: step [symmetric] keptText_scanLine act)
  finally show ?case by simp
qed

subsection \<open>Directive lines and statement blocks\<close>

lemma hasPrefix_append: "hasPrefix line p \<Longrightarrow> line = p @ drop (length p) line"
  by (metis append_take_drop_id hasPrefix_def)

lemma directive_not_terminated:
  assumes "hasPrefix line sqlCmdPrefix"
  shows "\<not> endsWithSemicolon line"
proof -
  from assms have "line = ''-- +goose '' @ drop (length sqlCmdPrefix) line"
    using hasPrefix_append [of line sqlCmdPrefix] by (simp add: sqlCmdPrefix_def)
  then obtain rest where line: "line = ''-- +goose '' @ rest" ..
  have "\<exists>ws. scanWords scannerBufSize line = ''--'' # ws"
    unfolding line by (simp add: text_eval)
  then show ?thesis
    by (auto simp: endsWithSemicolon_def hasPrefix_def hasSuffix_def)
qed

lemma scanLine_StatementBegin:
  assumes "isDirective ''StatementBegin'' line" and "directionIsActive s"
    and "\<not> statementEnded s"
  shows "scanLine direction line s
           = s\<lparr>ignoreSemicolons := True, buf := buf s @ line @ [CHR 0x0A]\<rparr>"
  using assms
  by (simp add: scanLine_def Let_def handleCmd_def applyCmd_def isDirective_def)

lemma scanLine_inside_block:
  assumes "\<not> hasPrefix line sqlCmdPrefix" and "directionIsActive s"
    and "ignoreSemicolons s" and "\<not> statementEnded s"
  shows "scanLine direction line s = s\<lparr>buf := buf s @ line @ [CHR 0x0A]\<rparr>"
  using assms by (simp add: scanLine_def Let_def handleCmd_def)

lemma scanLinesFrom_inside_block:
  assumes "\<forall>l \<in> set body. \<not> hasPrefix l sqlCmdPrefix" and "directionIsActive s"
    and "ignoreSemicolons s" and "\<not> statementEnded s"
  shows "scanLinesFrom direction body s
           = s\<lparr>buf := buf s @ concat (map (\<lambda>l. l @ [CHR 0x0A]) body)\<rparr>"
  using assms
proof (induction body arbitrary: s)
  case Nil
  show ?case by (simp add: scanLinesFrom_Nil)
next
  case (Cons l body)
  have "scanLine direction l s = s\<lparr>buf := buf s @ l @ [CHR 0x0A]\<rparr>"
    using Cons.prems by (simp add: scanLine_inside_block)
  moreover have "scanLinesFrom direction body (s\<lparr>buf := buf s @ l @ [CHR 0x0A]\<rparr>)
      = (s\<lparr>buf := buf s @ l @ [CHR 0x0A]\<rparr>)
          \<lparr>buf := buf (s\<lparr>buf := buf s @ l @ [CHR 0x0A]\<rparr>)
                   @ concat (map (\<lambda>l. l @ [CHR 0x0A]) body)\<rparr>"
    using Cons.prems by (intro Cons.IH) simp_all
  ultimately show ?case by (simp add: scanLinesFrom_Cons)
qed

lemma scanLine_StatementEnd:
  assumes "isDirective ''StatementEnd'' line" and "\<not> statementEnded s"
  shows "scanLine direction line s =
           (if directionIsActive s
            then (if ignoreSemicolons s
                  then s\<lparr>ignoreSemicolons := False,
                         stmts := stmts s @ [buf s @ line @ [CHR 0x0A]], buf := []\<rparr>
                  else s\<lparr>buf := buf s @ line @ [CHR 0x0A]\<rparr>)
            else s)"
proof -
  from assms(1) have "\<not> endsWithSemicolon line"
    by (simp add: isDirective_def directive_not_terminated)
  with assms show ?thesis
    by (simp add: scanLine_def Let_def handleCmd_def applyCmd_def isDirective_def)
qed

subsection \<open>Claims about the splitter\<close>

text \<open>
  Claim C2, as stated: lines that start with the directive prefix are never appended
  to the statement text, and the example script split for Up gives exactly the
  statement \<open>CREATE TABLE t (id int);\<close> with its newline. The loop body has no
  \<open>continue\<close> after the \<open>switch\<close>: the header line that makes the direction active is
  written to the buffer like any other line, so the statement starts with it.
\<close>

theorem example_up_keeps_header_line:
  "\<not> (snd (getSQLStatements exampleFile True)
        = Returns ([''CREATE TABLE t (id int);'' @ [CHR 0x0A]], True))"
  by (simp add: exampleFile_def exampleScript_def splitter_eval text_eval)

text \<open>
  Claim C2, amended: every line, a directive line included, is appended to the text
  kept (verbatim, plus a newline) exactly when the direction is active once the line's
  command, if it has one, has been applied. The example script split for Up gives the
  one statement made of the Up header line and the \<open>CREATE TABLE\<close> line, with the
  transaction flag true; split for Down it gives the one statement made of the Down
  header line and the \<open>DROP TABLE\<close> line.
\<close>

theorem directive_lines_kept_when_active:
  "keptText (scanLine direction line s)
     = keptText s @ (if directionIsActive (handleCmd direction line s)
                     then line @ [CHR 0x0A] else [])
   \<and> snd (getSQLStatements exampleFile True)
       = Returns ([''-- +goose Up'' @ [CHR 0x0A] @ ''CREATE TABLE t (id int);'' @ [CHR 0x0A]],
                  True)
   \<and> snd (getSQLStatements exampleFile False)
       = Returns ([''-- +goose Down'' @ [CHR 0x0A] @ ''DROP TABLE t;'' @ [CHR 0x0A]], True)"
proof (intro conjI)
  show "keptText (scanLine direction line s)
     = keptText s @ (if directionIsActive (handleCmd direction line s)
                     then line @ [CHR 0x0A] else [])"
    by (rule keptText_scanLine)
next
  show "snd (getSQLStatements exampleFile True)
       = Returns ([''-- +goose Up'' @ [CHR 0x0A] @ ''CREATE TABLE t (id int);'' @ [CHR 0x0A]],
                  True)"
    by (simp add: exampleFile_def exampleScript_def splitter_eval text_eval)
next
  show "snd (getSQLStatements exampleFile False)
       = Returns ([''-- +goose Down'' @ [CHR 0x0A] @ ''DROP TABLE t;'' @ [CHR 0x0A]], True)"
    by (simp add: exampleFile_def exampleScript_def splitter_eval text_eval)
qed

lemma getSQLStatements_Returns:
  assumes "snd (getSQLStatements r direction) = Returns (statements, useTx)"
  shows "statements = stmts (scanLinesFrom direction (scriptLines (content r)) initialSplitter)
         \<and> useTx = tx (scanLinesFrom direction (scriptLines (content r)) initialSplitter)"
proof (cases "scanLoop direction (scanLines (content r)) initialSplitter")
  case None
  with assms show ?thesis by (simp add: getSQLStatements_def)
next
  case (Some s)
  then have "s = scanLinesFrom direction (scriptLines (content r)) initialSplitter"
    by (simp add: scanLoop_Some_iff scriptLines_def)
  with Some assms show ?thesis
    by (auto simp: getSQLStatements_def split: option.splits if_splits)
qed

text \<open>
  Claim C4. Whenever the splitter returns, for either direction, the transaction flag
  it returns is false if and only if some line of the script is the directive
  \<open>NO TRANSACTION\<close>, whatever section the line is in.
\<close>

theorem useTransaction_false_iff_directive:
  assumes "snd (getSQLStatements r direction) = Returns (statements, useTx)"
  shows "(useTx = False)
           = (\<exists>l \<in> set (scriptLines (content r)). isDirective ''NO TRANSACTION'' l)"
  using getSQLStatements_Returns [OF assms]
  by (simp add: tx_scanLinesFrom initialSplitter_def)

theorem useTransaction_false_iff_directive_witness:
  "snd (getSQLStatements noTxFile True) = Returns ([''-- +goose Up'' @ [CHR 0x0A] @ ''a;'' @ [CHR 0x0A]], False)
   \<and> (False = False)
        = (\<exists>l \<in> set (scriptLines (content noTxFile)). isDirective ''NO TRANSACTION'' l)"
proof -
  have h: "snd (getSQLStatements noTxFile True)
             = Returns ([''-- +goose Up'' @ [CHR 0x0A] @ ''a;'' @ [CHR 0x0A]], False)"
    by (simp add: noTxFile_def splitter_eval text_eval)
  from h useTransaction_false_iff_directive [OF h] show ?thesis
    by (rule conjI)
qed

text \<open>
  Claim C5. The section open after some lines is the one of the last Up or Down header.
  A line without the directive prefix is appended to the text kept, verbatim plus a
  newline, exactly when the open section is the requested direction's; so when
  the splitter returns, the statements it emits are made, in order, of the lines that
  lie in sections of the requested direction and of nothing else: splitting for Up
  emits nothing from a Down section, and splitting for Down nothing from an Up section.
\<close>

theorem only_requested_sections_emitted:
  "(\<not> hasPrefix line sqlCmdPrefix \<longrightarrow>
      keptText (scanLine direction line (scanLinesFrom direction before initialSplitter))
        = keptText (scanLinesFrom direction before initialSplitter)
          @ (if sectionOf before = Some direction then line @ [CHR 0x0A] else []))
   \<and> (snd (getSQLStatements r direction) = Returns (statements, useTx) \<longrightarrow>
        (\<exists>rest. concat (map (\<lambda>l. l @ [CHR 0x0A])
                          (keptLines direction [] (scriptLines (content r))))
                 = concat statements @ rest))"
proof (intro conjI impI)
  assume "\<not> hasPrefix line sqlCmdPrefix"
  then show "keptText (scanLine direction line (scanLinesFrom direction before initialSplitter))
        = keptText (scanLinesFrom direction before initialSplitter)
          @ (if sectionOf before = Some direction then line @ [CHR 0x0A] else [])"
    by (simp add: keptText_scanLine handleCmd_plain directionIsActive_scanLinesFrom)
next
  assume ret: "snd (getSQLStatements r direction) = Returns (statements, useTx)"
  let ?s = "scanLinesFrom direction (scriptLines (content r)) initialSplitter"
  have "keptText ?s = concat (map (\<lambda>l. l @ [CHR 0x0A])
                                (keptLines direction [] (scriptLines (content r))))"
    using keptText_scanLinesFrom [of direction "scriptLines (content r)" "[]"]
    by (simp add: scanLinesFrom_Nil keptText_def initialSplitter_def)
  moreover have "statements = stmts ?s"
    using getSQLStatements_Returns [OF ret] by simp
  ultimately have "concat (map (\<lambda>l. l @ [CHR 0x0A])
                             (keptLines direction [] (scriptLines (content r))))
                   = concat statements @ buf ?s"
    by (simp add: keptText_def)
  then show "\<exists>rest. concat (map (\<lambda>l. l @ [CHR 0x0A])
                          (keptLines direction [] (scriptLines (content r))))
                 = concat statements @ rest" ..
qed

theorem only_requested_sections_emitted_witness:
  "\<not> hasPrefix ''DROP TABLE t;'' sqlCmdPrefix
   \<and> keptText (scanLine True ''DROP TABLE t;''
                 (scanLinesFrom True
                    [''-- +goose Up'', ''CREATE TABLE t (id int);'', ''-- +goose Down'']
                    initialSplitter))
       = keptText (scanLinesFrom True
                     [''-- +goose Up'', ''CREATE TABLE t (id int);'', ''-- +goose Down'']
                     initialSplitter)
         @ (if sectionOf [''-- +goose Up'', ''CREATE TABLE t (id int);'', ''-- +goose Down'']
                 = Some True
            then ''DROP TABLE t;'' @ [CHR 0x0A] else [])
   \<and> sectionOf [''-- +goose Up'', ''CREATE TABLE t (id int);'', ''-- +goose Down''] = Some False
   \<and> snd (getSQLStatements exampleFile True)
       = Returns ([''-- +goose Up'' @ [CHR 0x0A] @ ''CREATE TABLE t (id int);'' @ [CHR 0x0A]],
                  True)
   \<and> (\<exists>rest. concat (map (\<lambda>l. l @ [CHR 0x0A])
                        (keptLines True [] (scriptLines (content exampleFile))))
               = concat [''-- +goose Up'' @ [CHR 0x0A] @ ''CREATE TABLE t (id int);''
                           @ [CHR 0x0A]] @ rest)"
proof -
  have h1: "\<not> hasPrefix ''DROP TABLE t;'' sqlCmdPrefix"
    by (simp add: hasPrefix_def sqlCmdPrefix_def)
  have h2: "snd (getSQLStatements exampleFile True)
       = Returns ([''-- +goose Up'' @ [CHR 0x0A] @ ''CREATE TABLE t (id int);'' @ [CHR 0x0A]],
                  True)"
    by (simp add: exampleFile_def exampleScript_def splitter_eval text_eval)
  have h3: "sectionOf [''-- +goose Up'', ''CREATE TABLE t (id int);'', ''-- +goose Down'']
              = Some False"
    by (simp add: sectionOf_def directionCmd_def isDirective_def lineCmd_def sqlCmdPrefix_def
        text_eval)
  note t = only_requested_sections_emitted
    [of "''DROP TABLE t;''" True
        "[''-- +goose Up'', ''CREATE TABLE t (id int);'', ''-- +goose Down'']"
        exampleFile
        "[''-- +goose Up'' @ [CHR 0x0A] @ ''CREATE TABLE t (id int);'' @ [CHR 0x0A]]" True]
  show ?thesis
    using h1 t [THEN conjunct1, THEN mp, OF h1] h3 h2 t [THEN conjunct2, THEN mp, OF h2]
    by (intro conjI)
qed

subsection \<open>Explicit statement blocks in the output\<close>

lemma block_adds_one_statement:
  assumes "isDirective ''StatementBegin'' b" and "isDirective ''StatementEnd'' e"
    and "\<forall>l \<in> set body. \<not> hasPrefix l sqlCmdPrefix"
    and "directionIsActive (scanLinesFrom direction before initialSplitter)"
  shows "stmts (scanLinesFrom direction (b # body @ [e])
                  (scanLinesFrom direction before initialSplitter))
           = stmts (scanLinesFrom direction before initialSplitter)
             @ [buf (scanLinesFrom direction before initialSplitter)
                  @ concat (map (\<lambda>l. l @ [CHR 0x0A]) (b # body @ [e]))]"
proof -
  let ?s = "scanLinesFrom direction before initialSplitter"
  let ?s1 = "?s\<lparr>ignoreSemicolons := True, buf := buf ?s @ b @ [CHR 0x0A]\<rparr>"
  let ?s2 = "?s1\<lparr>buf := buf ?s1 @ concat (map (\<lambda>l. l @ [CHR 0x0A]) body)\<rparr>"
  have ended: "\<not> statementEnded ?s"
    by (rule statementEnded_scanLinesFrom) (simp add: initialSplitter_def)
  have b: "scanLine direction b ?s = ?s1"
    using assms(1,4) ended by (rule scanLine_StatementBegin)
  have body: "scanLinesFrom direction body ?s1 = ?s2"
    using assms(3,4) ended by (intro scanLinesFrom_inside_block) simp_all
  have e: "scanLine direction e ?s2
             = ?s2\<lparr>ignoreSemicolons := False,
                    stmts := stmts ?s2 @ [buf ?s2 @ e @ [CHR 0x0A]], buf := []\<rparr>"
    using assms(2,4) ended by (simp add: scanLine_StatementEnd)
  have run: "scanLinesFrom direction (b # body @ [e]) ?s = scanLine direction e ?s2"
    by (simp add: scanLinesFrom_Cons scanLinesFrom_append scanLinesFrom_Nil b body)
  show ?thesis unfolding run e by simp
qed

lemma stmts_scanLine_grows: "\<exists>post. stmts (scanLine direction l s) = stmts s @ post"
  by (simp add: scanLine_def Let_def stmts_handleCmd)

lemma stmts_scanLinesFrom_grows:
  "\<exists>post. stmts (scanLinesFrom direction ls s) = stmts s @ post"
proof (induction ls arbitrary: s)
  case Nil
  show ?case by (simp add: scanLinesFrom_Nil)
next
  case (Cons l ls)
  obtain p1 where p1: "stmts (scanLine direction l s) = stmts s @ p1"
    using stmts_scanLine_grows by blast
  obtain p2 where "stmts (scanLinesFrom direction ls (scanLine direction l s))
                     = stmts (scanLine direction l s) @ p2"
    using Cons.IH by blast
  with p1 have "stmts (scanLinesFrom direction (l # ls) s) = stmts s @ (p1 @ p2)"
    by (simp add: scanLinesFrom_Cons)
  then show ?case ..
qed

lemma keptLines_append:
  "keptLines direction before (xs @ ys)
     = keptLines direction before xs @ keptLines direction (before @ xs) ys"
  by (induction xs arbitrary: before) auto

lemma keptText_reached:
  "keptText (scanLinesFrom direction ls initialSplitter)
     = concat (map (\<lambda>l. l @ [CHR 0x0A]) (keptLines direction [] ls))"
  using keptText_scanLinesFrom [of direction ls "[]"]
  by (simp add: scanLinesFrom_Nil keptText_def initialSplitter_def)

lemma directionCmd_StatementBegin: "isDirective ''StatementBegin'' l \<Longrightarrow> directionCmd l = None"
  by (simp add: directionCmd_def isDirective_def)

lemma directionCmd_StatementEnd: "isDirective ''StatementEnd'' l \<Longrightarrow> directionCmd l = None"
  by (simp add: directionCmd_def isDirective_def)

lemma not_Begin_and_End:
  "isDirective ''StatementBegin'' l \<Longrightarrow> \<not> isDirective ''StatementEnd'' l"
  by (simp add: isDirective_def)

lemma ignoreSemicolons_scanLine:
  "ignoreSemicolons (scanLine direction l s) =
     (if directionIsActive s \<and> isDirective ''StatementBegin'' l then True
      else if directionIsActive s \<and> isDirective ''StatementEnd'' l then False
      else ignoreSemicolons s)"
  by (auto simp: scanLine_def Let_def handleCmd_def applyCmd_def isDirective_def)

lemma blockOpen_snoc:
  "blockOpen direction (ls @ [l]) =
     (if sectionOf (ls @ [l]) = Some direction \<and> isDirective ''StatementBegin'' l then True
      else if sectionOf (ls @ [l]) = Some direction \<and> isDirective ''StatementEnd'' l then False
      else blockOpen direction ls)"
  using not_Begin_and_End [of l]
  by (auto simp: blockOpen_def keptLines_append)

lemma ignoreSemicolons_scanLinesFrom:
  "ignoreSemicolons (scanLinesFrom direction ls initialSplitter) = blockOpen direction ls"
proof (induction ls rule: rev_induct)
  case Nil
  show ?case by (simp add: scanLinesFrom_Nil blockOpen_def initialSplitter_def)
next
  case (snoc l ls)
  let ?s = "scanLinesFrom direction ls initialSplitter"
  have act: "directionIsActive ?s = (sectionOf ls = Some direction)"
    by (rule directionIsActive_scanLinesFrom)
  have run: "scanLinesFrom direction (ls @ [l]) initialSplitter = scanLine direction l ?s"
    by (simp add: scanLinesFrom_append scanLinesFrom_Cons scanLinesFrom_Nil)
  consider (isBegin) "isDirective ''StatementBegin'' l"
    | (isEnd) "\<not> isDirective ''StatementBegin'' l" "isDirective ''StatementEnd'' l"
    | (other) "\<not> isDirective ''StatementBegin'' l" "\<not> isDirective ''StatementEnd'' l"
    by blast
  then show ?case
  proof cases
    case isBegin
    then have sec: "sectionOf (ls @ [l]) = sectionOf ls"
      by (simp add: sectionOf_snoc directionCmd_StatementBegin)
    from isBegin have ne: "\<not> isDirective ''StatementEnd'' l" by (rule not_Begin_and_End)
    show ?thesis
      unfolding run ignoreSemicolons_scanLine blockOpen_snoc sec act
      using isBegin ne snoc.IH by simp
  next
    case isEnd
    then have sec: "sectionOf (ls @ [l]) = sectionOf ls"
      by (simp add: sectionOf_snoc directionCmd_StatementEnd)
    show ?thesis
      unfolding run ignoreSemicolons_scanLine blockOpen_snoc sec act
      using isEnd snoc.IH by simp
  next
    case other
    show ?thesis
      unfolding run ignoreSemicolons_scanLine blockOpen_snoc
      using other snoc.IH by simp
  qed
qed

text \<open>
  Claim C6. Whenever the splitter returns: if the script holds, in a section of the
  requested direction, a \<open>StatementBegin\<close> line, then lines without the directive
  prefix (with semicolons or without) and then a \<open>StatementEnd\<close> line, the statements
  returned contain one statement that holds the whole block, from the \<open>StatementBegin\<close>
  line to the \<open>StatementEnd\<close> line, after the text that was kept and not yet emitted
  when the block started; no semicolon of the block splits it. And a \<open>StatementEnd\<close>
  line at the end of a script adds a statement to what the script without that line
  gives exactly when the line lies in a section of the requested direction and a
  \<open>StatementBegin\<close> is open there; otherwise the statements are the same.
\<close>

theorem statement_block_single_statement:
  "(snd (getSQLStatements r direction) = Returns (statements, useTx)
      \<and> scriptLines (content r) = before @ b # body @ [e] @ after
      \<and> sectionOf before = Some direction
      \<and> isDirective ''StatementBegin'' b \<and> isDirective ''StatementEnd'' e
      \<and> (\<forall>l \<in> set body. \<not> hasPrefix l sqlCmdPrefix)
    \<longrightarrow> (\<exists>pre pending post.
           statements
             = pre @ [pending @ concat (map (\<lambda>l. l @ [CHR 0x0A]) (b # body @ [e]))] @ post
           \<and> concat pre @ pending
               = concat (map (\<lambda>l. l @ [CHR 0x0A]) (keptLines direction [] before))))
   \<and> (snd (getSQLStatements rPre direction) = Returns (statementsPre, useTxPre)
      \<and> snd (getSQLStatements rAll direction) = Returns (statementsAll, useTxAll)
      \<and> scriptLines (content rAll) = scriptLines (content rPre) @ [lastLine]
      \<and> isDirective ''StatementEnd'' lastLine
    \<longrightarrow> (if sectionOf (scriptLines (content rPre)) = Some direction
              \<and> blockOpen direction (scriptLines (content rPre))
         then \<exists>pending. statementsAll = statementsPre @ [pending @ lastLine @ [CHR 0x0A]]
         else statementsAll = statementsPre))"
proof (intro conjI impI)
  assume h: "snd (getSQLStatements r direction) = Returns (statements, useTx)
      \<and> scriptLines (content r) = before @ b # body @ [e] @ after
      \<and> sectionOf before = Some direction
      \<and> isDirective ''StatementBegin'' b \<and> isDirective ''StatementEnd'' e
      \<and> (\<forall>l \<in> set body. \<not> hasPrefix l sqlCmdPrefix)"
  let ?s = "scanLinesFrom direction before initialSplitter"
  let ?block = "concat (map (\<lambda>l. l @ [CHR 0x0A]) (b # body @ [e]))"
  from h have act: "directionIsActive ?s"
    by (simp add: directionIsActive_scanLinesFrom)
  have blk: "stmts (scanLinesFrom direction (b # body @ [e]) ?s)
               = stmts ?s @ [buf ?s @ ?block]"
    using h act by (intro block_adds_one_statement) simp_all
  have split: "scanLinesFrom direction (scriptLines (content r)) initialSplitter
                 = scanLinesFrom direction after (scanLinesFrom direction (b # body @ [e]) ?s)"
    using h scanLinesFrom_append [of direction before "(b # body @ [e]) @ after" initialSplitter]
      scanLinesFrom_append [of direction "b # body @ [e]" after ?s]
    by simp
  obtain post where
    "stmts (scanLinesFrom direction after (scanLinesFrom direction (b # body @ [e]) ?s))
       = stmts (scanLinesFrom direction (b # body @ [e]) ?s) @ post"
    using stmts_scanLinesFrom_grows by blast
  with blk split
  have "stmts (scanLinesFrom direction (scriptLines (content r)) initialSplitter)
          = stmts ?s @ [buf ?s @ ?block] @ post"
    by simp
  moreover have "statements
                   = stmts (scanLinesFrom direction (scriptLines (content r)) initialSplitter)"
    using h getSQLStatements_Returns [of r direction statements useTx] by simp
  ultimately have one: "statements = stmts ?s @ [buf ?s @ ?block] @ post"
    by simp
  have kept: "concat (stmts ?s) @ buf ?s
                = concat (map (\<lambda>l. l @ [CHR 0x0A]) (keptLines direction [] before))"
    using keptText_reached [of direction before] by (simp add: keptText_def)
  from one kept
  show "\<exists>pre pending post.
           statements = pre @ [pending @ ?block] @ post
           \<and> concat pre @ pending
               = concat (map (\<lambda>l. l @ [CHR 0x0A]) (keptLines direction [] before))"
    by blast
next
  assume h: "snd (getSQLStatements rPre direction) = Returns (statementsPre, useTxPre)
      \<and> snd (getSQLStatements rAll direction) = Returns (statementsAll, useTxAll)
      \<and> scriptLines (content rAll) = scriptLines (content rPre) @ [lastLine]
      \<and> isDirective ''StatementEnd'' lastLine"
  let ?ls = "scriptLines (content rPre)"
  let ?s = "scanLinesFrom direction ?ls initialSplitter"
  have s1: "statementsPre = stmts ?s"
    using h getSQLStatements_Returns [of rPre direction statementsPre useTxPre] by simp
  have "statementsAll = stmts (scanLinesFrom direction (?ls @ [lastLine]) initialSplitter)"
    using h getSQLStatements_Returns [of rAll direction statementsAll useTxAll] by simp
  then have s2: "statementsAll = stmts (scanLine direction lastLine ?s)"
    by (simp add: scanLinesFrom_append scanLinesFrom_Cons scanLinesFrom_Nil)
  have ended: "\<not> statementEnded ?s"
    by (rule statementEnded_scanLinesFrom) (simp add: initialSplitter_def)
  have act: "directionIsActive ?s = (sectionOf ?ls = Some direction)"
    by (rule directionIsActive_scanLinesFrom)
  have opn: "ignoreSemicolons ?s = blockOpen direction ?ls"
    by (rule ignoreSemicolons_scanLinesFrom)
  have step: "stmts (scanLine direction lastLine ?s)
                = (if sectionOf ?ls = Some direction \<and> blockOpen direction ?ls
                   then stmts ?s @ [buf ?s @ lastLine @ [CHR 0x0A]] else stmts ?s)"
    using h ended by (simp add: scanLine_StatementEnd act opn)
  show "if sectionOf ?ls = Some direction \<and> blockOpen direction ?ls
         then \<exists>pending. statementsAll = statementsPre @ [pending @ lastLine @ [CHR 0x0A]]
         else statementsAll = statementsPre"
    unfolding s1 s2 step by auto
qed

theorem statement_block_single_statement_witness:
  "snd (getSQLStatements blockFile True)
     = Returns ([''-- +goose Up'' @ [CHR 0x0A] @ ''-- +goose StatementBegin'' @ [CHR 0x0A]
                 @ ''a; b;'' @ [CHR 0x0A] @ ''c;'' @ [CHR 0x0A]
                 @ ''-- +goose StatementEnd'' @ [CHR 0x0A],
                 ''d;'' @ [CHR 0x0A]], True)
   \<and> scriptLines (content blockFile)
       = [''-- +goose Up''] @ ''-- +goose StatementBegin'' # [''a; b;'', ''c;'']
         @ [''-- +goose StatementEnd''] @ [''d;'']
   \<and> sectionOf [''-- +goose Up''] = Some True
   \<and> isDirective ''StatementBegin'' ''-- +goose StatementBegin''
   \<and> isDirective ''StatementEnd'' ''-- +goose StatementEnd''
   \<and> \<not> hasPrefix ''a; b;'' sqlCmdPrefix \<and> \<not> hasPrefix ''c;'' sqlCmdPrefix
   \<and> (\<exists>pre pending post.
         [''-- +goose Up'' @ [CHR 0x0A] @ ''-- +goose StatementBegin'' @ [CHR 0x0A]
            @ ''a; b;'' @ [CHR 0x0A] @ ''c;'' @ [CHR 0x0A]
            @ ''-- +goose StatementEnd'' @ [CHR 0x0A],
          ''d;'' @ [CHR 0x0A]]
           = pre @ [pending @ concat (map (\<lambda>l. l @ [CHR 0x0A])
                                  (''-- +goose StatementBegin'' # [''a; b;'', ''c;'']
                                     @ [''-- +goose StatementEnd'']))] @ post
         \<and> concat pre @ pending
             = concat (map (\<lambda>l. l @ [CHR 0x0A]) (keptLines True [] [''-- +goose Up''])))
   \<and> snd (getSQLStatements openBlockFile True) = Returns ([], True)
   \<and> snd (getSQLStatements closedBlockFile True)
       = Returns ([''-- +goose Up'' @ [CHR 0x0A] @ ''-- +goose StatementBegin'' @ [CHR 0x0A]
                   @ ''a; b;'' @ [CHR 0x0A] @ ''-- +goose StatementEnd'' @ [CHR 0x0A]], True)
   \<and> scriptLines (content closedBlockFile)
       = scriptLines (content openBlockFile) @ [''-- +goose StatementEnd'']
   \<and> sectionOf (scriptLines (content openBlockFile)) = Some True
   \<and> blockOpen True (scriptLines (content openBlockFile))
   \<and> (if sectionOf (scriptLines (content openBlockFile)) = Some True
          \<and> blockOpen True (scriptLines (content openBlockFile))
       then \<exists>pending.
              [''-- +goose Up'' @ [CHR 0x0A] @ ''-- +goose StatementBegin'' @ [CHR 0x0A]
                 @ ''a; b;'' @ [CHR 0x0A] @ ''-- +goose StatementEnd'' @ [CHR 0x0A]]
                = [] @ [pending @ ''-- +goose StatementEnd'' @ [CHR 0x0A]]
       else [''-- +goose Up'' @ [CHR 0x0A] @ ''-- +goose StatementBegin'' @ [CHR 0x0A]
               @ ''a; b;'' @ [CHR 0x0A] @ ''-- +goose StatementEnd'' @ [CHR 0x0A]] = [])
   \<and> snd (getSQLStatements noBlockFile True) = Returns ([], True)
   \<and> snd (getSQLStatements strayEndFile True) = Returns ([], True)
   \<and> scriptLines (content strayEndFile)
       = scriptLines (content noBlockFile) @ [''-- +goose StatementEnd'']
   \<and> \<not> blockOpen True (scriptLines (content noBlockFile))
   \<and> (if sectionOf (scriptLines (content noBlockFile)) = Some True
          \<and> blockOpen True (scriptLines (content noBlockFile))
       then \<exists>pending. [] = [] @ [pending @ ''-- +goose StatementEnd'' @ [CHR 0x0A]]
       else ([] :: string list) = [])"
proof -
  note line_eval = scriptLines_def scanLines_Nil scanLines_Cons dropCR_def
  note directive_eval = sectionOf_def directionCmd_def isDirective_def lineCmd_def
    sqlCmdPrefix_def blockOpen_def text_eval
  have a1: "snd (getSQLStatements blockFile True)
     = Returns ([''-- +goose Up'' @ [CHR 0x0A] @ ''-- +goose StatementBegin'' @ [CHR 0x0A]
                 @ ''a; b;'' @ [CHR 0x0A] @ ''c;'' @ [CHR 0x0A]
                 @ ''-- +goose StatementEnd'' @ [CHR 0x0A],
                 ''d;'' @ [CHR 0x0A]], True)"
    by (simp add: blockFile_def splitter_eval text_eval)
  have a2: "scriptLines (content blockFile)
       = [''-- +goose Up''] @ ''-- +goose StatementBegin'' # [''a; b;'', ''c;'']
         @ [''-- +goose StatementEnd''] @ [''d;'']"
    by (simp add: blockFile_def line_eval)
  have a3: "sectionOf [''-- +goose Up''] = Some True"
    by (simp add: directive_eval)
  have a4: "isDirective ''StatementBegin'' ''-- +goose StatementBegin''"
    by (simp add: directive_eval)
  have a5: "isDirective ''StatementEnd'' ''-- +goose StatementEnd''"
    by (simp add: directive_eval)
  have a6: "\<not> hasPrefix ''a; b;'' sqlCmdPrefix" and a7: "\<not> hasPrefix ''c;'' sqlCmdPrefix"
    by (simp_all add: hasPrefix_def sqlCmdPrefix_def)
  have a8: "\<forall>l \<in> set [''a; b;'', ''c;'']. \<not> hasPrefix l sqlCmdPrefix"
    using a6 a7 by simp
  note t = statement_block_single_statement
    [where r = blockFile and direction = True and useTx = True
       and before = "[''-- +goose Up'']" and b = "''-- +goose StatementBegin''"
       and body = "[''a; b;'', ''c;'']" and e = "''-- +goose StatementEnd''"
       and after = "[''d;'']"
       and statements =
         "[''-- +goose Up'' @ [CHR 0x0A] @ ''-- +goose StatementBegin'' @ [CHR 0x0A]
             @ ''a; b;'' @ [CHR 0x0A] @ ''c;'' @ [CHR 0x0A]
             @ ''-- +goose StatementEnd'' @ [CHR 0x0A],
           ''d;'' @ [CHR 0x0A]]"]
  have c1: "\<exists>pre pending post.
         [''-- +goose Up'' @ [CHR 0x0A] @ ''-- +goose StatementBegin'' @ [CHR 0x0A]
            @ ''a; b;'' @ [CHR 0x0A] @ ''c;'' @ [CHR 0x0A]
            @ ''-- +goose StatementEnd'' @ [CHR 0x0A],
          ''d;'' @ [CHR 0x0A]]
           = pre @ [pending @ concat (map (\<lambda>l. l @ [CHR 0x0A])
                                  (''-- +goose StatementBegin'' # [''a; b;'', ''c;'']
                                     @ [''-- +goose StatementEnd'']))] @ post
         \<and> concat pre @ pending
             = concat (map (\<lambda>l. l @ [CHR 0x0A]) (keptLines True [] [''-- +goose Up'']))"
    by (rule t [THEN conjunct1, THEN mp]) (intro conjI a1 a2 a3 a4 a5 a8)
  have b1: "snd (getSQLStatements openBlockFile True) = Returns ([], True)"
    by (simp add: openBlockFile_def splitter_eval text_eval)
  have b2: "snd (getSQLStatements closedBlockFile True)
       = Returns ([''-- +goose Up'' @ [CHR 0x0A] @ ''-- +goose StatementBegin'' @ [CHR 0x0A]
                   @ ''a; b;'' @ [CHR 0x0A] @ ''-- +goose StatementEnd'' @ [CHR 0x0A]], True)"
    by (simp add: closedBlockFile_def splitter_eval text_eval)
  have b3: "scriptLines (content closedBlockFile)
       = scriptLines (content openBlockFile) @ [''-- +goose StatementEnd'']"
    by (simp add: closedBlockFile_def openBlockFile_def line_eval)
  have b4: "sectionOf (scriptLines (content openBlockFile)) = Some True"
    by (simp add: openBlockFile_def line_eval directive_eval)
  have b5: "blockOpen True (scriptLines (content openBlockFile))"
    by (simp add: openBlockFile_def line_eval directive_eval)
  have c2: "if sectionOf (scriptLines (content openBlockFile)) = Some True
          \<and> blockOpen True (scriptLines (content openBlockFile))
       then \<exists>pending.
              [''-- +goose Up'' @ [CHR 0x0A] @ ''-- +goose StatementBegin'' @ [CHR 0x0A]
                 @ ''a; b;'' @ [CHR 0x0A] @ ''-- +goose StatementEnd'' @ [CHR 0x0A]]
                = [] @ [pending @ ''-- +goose StatementEnd'' @ [CHR 0x0A]]
       else [''-- +goose Up'' @ [CHR 0x0A] @ ''-- +goose StatementBegin'' @ [CHR 0x0A]
               @ ''a; b;'' @ [CHR 0x0A] @ ''-- +goose StatementEnd'' @ [CHR 0x0A]] = []"
    by (rule statement_block_single_statement
          [where rPre = openBlockFile and rAll = closedBlockFile and direction = True
             and useTxPre = True and useTxAll = True and statementsPre = "[]",
           THEN conjunct2, THEN mp])
       (intro conjI b1 b2 b3 a5)
  have d1: "snd (getSQLStatements noBlockFile True) = Returns ([], True)"
    by (simp add: noBlockFile_def splitter_eval text_eval)
  have d2: "snd (getSQLStatements strayEndFile True) = Returns ([], True)"
    by (simp add: strayEndFile_def splitter_eval text_eval)
  have d3: "scriptLines (content strayEndFile)
       = scriptLines (content noBlockFile) @ [''-- +goose StatementEnd'']"
    by (simp add: strayEndFile_def noBlockFile_def line_eval)
  have d4: "\<not> blockOpen True (scriptLines (content noBlockFile))"
    by (simp add: noBlockFile_def line_eval directive_eval)
  have c3: "if sectionOf (scriptLines (content noBlockFile)) = Some True
          \<and> blockOpen True (scriptLines (content noBlockFile))
       then \<exists>pending. [] = [] @ [pending @ ''-- +goose StatementEnd'' @ [CHR 0x0A]]
       else ([] :: string list) = []"
    by (rule statement_block_single_statement
          [where rPre = noBlockFile and rAll = strayEndFile and direction = True
             and useTxPre = True and useTxAll = True and statementsPre = "[]"
             and statementsAll = "[]",
           THEN conjunct2, THEN mp])
       (intro conjI d1 d2 d3 a5)
  show ?thesis
    by (intro conjI a1 a2 a3 a4 a5 a6 a7 c1 b1 b2 b3 b4 b5 c2 d1 d2 d3 d4 c3)
qed

subsection \<open>Dialects\<close>

text \<open>
  Claim C8, as stated: every method of the Redshift dialect returns what the same
  method of the Postgres dialect returns, and likewise for TiDB and MySQL. This fails
  for \<open>createVersionTableSQL\<close>: the Redshift table has an \<open>identity(1, 1)\<close> key and
  a \<open>sysdate\<close> default, the TiDB table a \<open>BIGINT UNSIGNED AUTO_INCREMENT\<close> key.
\<close>

theorem alias_dialect_ddl_differs:
  "\<not> (createVersionTableSQL RedshiftDialect = createVersionTableSQL PostgresDialect
        \<and> createVersionTableSQL TiDBDialect = createVersionTableSQL MySQLDialect)"
  by (simp add: ddlLines_def)

text \<open>
  Claim C8, amended: for every input, \<open>insertVersionSQL\<close>, \<open>dbVersionQuery\<close>,
  \<open>getDBName\<close> and \<open>connectToServer\<close> of the Redshift dialect return what those of the
  Postgres dialect return, and those of the TiDB dialect what those of the MySQL dialect
  return; \<open>createVersionTableSQL\<close> differs within each pair.
\<close>

theorem alias_dialect_same_but_ddl:
  "insertVersionSQL RedshiftDialect = insertVersionSQL PostgresDialect
   \<and> dbVersionQuery lib RedshiftDialect db = dbVersionQuery lib PostgresDialect db
   \<and> getDBName lib RedshiftDialect dbstring = getDBName lib PostgresDialect dbstring
   \<and> connectToServer lib RedshiftDialect dbstring = connectToServer lib PostgresDialect dbstring
   \<and> insertVersionSQL TiDBDialect = insertVersionSQL MySQLDialect
   \<and> dbVersionQuery lib TiDBDialect db = dbVersionQuery lib MySQLDialect db
   \<and> getDBName lib TiDBDialect dbstring = getDBName lib MySQLDialect dbstring
   \<and> connectToServer lib TiDBDialect dbstring = connectToServer lib MySQLDialect dbstring
   \<and> createVersionTableSQL RedshiftDialect \<noteq> createVersionTableSQL PostgresDialect
   \<and> createVersionTableSQL TiDBDialect \<noteq> createVersionTableSQL MySQLDialect"
  by (simp add: ddlLines_def)

text \<open>
  Claim C9. \<open>SetDialect\<close> with a name other than \<open>postgres\<close>, \<open>pgx\<close>, \<open>mysql\<close>,
  \<open>redshift\<close> and \<open>tidb\<close> returns an error and leaves the current dialect as it was:
  \<open>GetDialect\<close> after the call returns what it returned before.
\<close>

theorem SetDialect_unknown_name:
  assumes "d \<notin> {''postgres'', ''pgx'', ''mysql'', ''redshift'', ''tidb''}"
  shows "fst (SetDialect d current) = Some (UnknownDialect d)
         \<and> GetDialect (snd (SetDialect d current)) = GetDialect current"
  using assms by (simp add: SetDialect_def)

theorem SetDialect_unknown_name_witness:
  "''sqlite3'' \<notin> {''postgres'', ''pgx'', ''mysql'', ''redshift'', ''tidb''}
   \<and> fst (SetDialect ''sqlite3'' MySQLDialect) = Some (UnknownDialect ''sqlite3'')
   \<and> GetDialect (snd (SetDialect ''sqlite3'' MySQLDialect)) = GetDialect MySQLDialect"
proof -
  have h: "''sqlite3'' \<notin> {''postgres'', ''pgx'', ''mysql'', ''redshift'', ''tidb''}"
    by simp
  from h SetDialect_unknown_name [OF h, of MySQLDialect] show ?thesis
    by (intro conjI) (elim conjE, assumption)+
qed

text \<open>
  Claim C10. For every connection string, \<open>connectToServer\<close> of the MySQL and of the
  TiDB dialect returns the error "not implemented"; so \<open>CreateDB\<close> and \<open>DropDB\<close> return
  an error for every connection string when the current dialect is one of the two.
\<close>

theorem mysql_tidb_connectToServer_fails:
  "connectToServer lib MySQLDialect dbstring = Inl NotImplemented
   \<and> connectToServer lib TiDBDialect dbstring = Inl NotImplemented
   \<and> (\<exists>err. CreateDB lib MySQLDialect dbstring = Some err)
   \<and> (\<exists>err. CreateDB lib TiDBDialect dbstring = Some err)
   \<and> (\<exists>err. DropDB lib MySQLDialect dbstring = Some err)
   \<and> (\<exists>err. DropDB lib TiDBDialect dbstring = Some err)"
  by (simp add: CreateDB_def DropDB_def GetDialect_def split: sum.splits)

subsection \<open>The executor's loops\<close>

lemma txExecAll_all_succeed:
  assumes "\<forall>i < length qs. db (trace @ txCalls (take i qs)) (TxExec (qs ! i) []) = None"
  shows "txExecAll db trace qs = (None, trace @ txCalls qs)"
  using assms
proof (induction qs arbitrary: trace)
  case Nil
  show ?case by (simp add: txCalls_def)
next
  case (Cons q qs)
  from Cons.prems have first: "db trace (TxExec q []) = None"
    by (auto simp: txCalls_def dest: spec [of _ 0])
  have "\<forall>i < length qs.
          db ((trace @ [TxExec q []]) @ txCalls (take i qs)) (TxExec (qs ! i) []) = None"
  proof (intro allI impI)
    fix i assume "i < length qs"
    then have "Suc i < length (q # qs)" by simp
    with Cons.prems
    have "db (trace @ txCalls (take (Suc i) (q # qs))) (TxExec ((q # qs) ! Suc i) []) = None"
      by blast
    then show "db ((trace @ [TxExec q []]) @ txCalls (take i qs)) (TxExec (qs ! i) []) = None"
      by (simp add: txCalls_def)
  qed
  then have "txExecAll db (trace @ [TxExec q []]) qs
               = (None, (trace @ [TxExec q []]) @ txCalls qs)"
    by (rule Cons.IH)
  with first show ?case by (simp add: txCalls_def)
qed

lemma txExecAll_first_failure:
  assumes "n < length qs"
    and "\<forall>i < n. db (trace @ txCalls (take i qs)) (TxExec (qs ! i) []) = None"
    and "db (trace @ txCalls (take n qs)) (TxExec (qs ! n) []) = Some err"
  shows "txExecAll db trace qs = (Some err, trace @ txCalls (take (Suc n) qs))"
  using assms
proof (induction qs arbitrary: trace n)
  case Nil
  then show ?case by simp
next
  case (Cons q qs)
  show ?case
  proof (cases n)
    case 0
    with Cons.prems show ?thesis by (simp add: txCalls_def)
  next
    case (Suc m)
    with Cons.prems have first: "db trace (TxExec q []) = None"
      by (auto simp: txCalls_def dest: spec [of _ 0])
    have m: "m < length qs" using Cons.prems Suc by simp
    have before: "\<forall>i < m.
        db ((trace @ [TxExec q []]) @ txCalls (take i qs)) (TxExec (qs ! i) []) = None"
    proof (intro allI impI)
      fix i assume "i < m"
      then have "Suc i < n" using Suc by simp
      with Cons.prems
      have "db (trace @ txCalls (take (Suc i) (q # qs))) (TxExec ((q # qs) ! Suc i) []) = None"
        by blast
      then show "db ((trace @ [TxExec q []]) @ txCalls (take i qs)) (TxExec (qs ! i) []) = None"
        by (simp add: txCalls_def)
    qed
    have at: "db ((trace @ [TxExec q []]) @ txCalls (take m qs)) (TxExec (qs ! m) []) = Some err"
      using Cons.prems(3) Suc by (simp add: txCalls_def)
    have "txExecAll db (trace @ [TxExec q []]) qs
            = (Some err, (trace @ [TxExec q []]) @ txCalls (take (Suc m) qs))"
      using m before at by (rule Cons.IH)
    with first Suc show ?thesis by (simp add: txCalls_def)
  qed
qed

lemma execAll_all_succeed:
  assumes "\<forall>i < length qs. db (trace @ execCalls (take i qs)) (Exec (qs ! i) []) = None"
  shows "execAll db trace qs = (None, trace @ execCalls qs)"
  using assms
proof (induction qs arbitrary: trace)
  case Nil
  show ?case by (simp add: execCalls_def)
next
  case (Cons q qs)
  from Cons.prems have first: "db trace (Exec q []) = None"
    by (auto simp: execCalls_def dest: spec [of _ 0])
  have "\<forall>i < length qs.
          db ((trace @ [Exec q []]) @ execCalls (take i qs)) (Exec (qs ! i) []) = None"
  proof (intro allI impI)
    fix i assume "i < length qs"
    then have "Suc i < length (q # qs)" by simp
    with Cons.prems
    have "db (trace @ execCalls (take (Suc i) (q # qs))) (Exec ((q # qs) ! Suc i) []) = None"
      by blast
    then show "db ((trace @ [Exec q []]) @ execCalls (take i qs)) (Exec (qs ! i) []) = None"
      by (simp add: execCalls_def)
  qed
  then have "execAll db (trace @ [Exec q []]) qs
               = (None, (trace @ [Exec q []]) @ execCalls qs)"
    by (rule Cons.IH)
  with first show ?case by (simp add: execCalls_def)
qed

lemma execAll_first_failure:
  assumes "n < length qs"
    and "\<forall>i < n. db (trace @ execCalls (take i qs)) (Exec (qs ! i) []) = None"
    and "db (trace @ execCalls (take n qs)) (Exec (qs ! n) []) = Some err"
  shows "execAll db trace qs = (Some err, trace @ execCalls (take (Suc n) qs))"
  using assms
proof (induction qs arbitrary: trace n)
  case Nil
  then show ?case by simp
next
  case (Cons q qs)
  show ?case
  proof (cases n)
    case 0
    with Cons.prems show ?thesis by (simp add: execCalls_def)
  next
    case (Suc m)
    with Cons.prems have first: "db trace (Exec q []) = None"
      by (auto simp: execCalls_def dest: spec [of _ 0])
    have m: "m < length qs" using Cons.prems Suc by simp
    have before: "\<forall>i < m.
        db ((trace @ [Exec q []]) @ execCalls (take i qs)) (Exec (qs ! i) []) = None"
    proof (intro allI impI)
      fix i assume "i < m"
      then have "Suc i < n" using Suc by simp
      with Cons.prems
      have "db (trace @ execCalls (take (Suc i) (q # qs))) (Exec ((q # qs) ! Suc i) []) = None"
        by blast
      then show "db ((trace @ [Exec q []]) @ execCalls (take i qs)) (Exec (qs ! i) []) = None"
        by (simp add: execCalls_def)
    qed
    have at: "db ((trace @ [Exec q []]) @ execCalls (take m qs)) (Exec (qs ! m) []) = Some err"
      using Cons.prems(3) Suc by (simp add: execCalls_def)
    have "execAll db (trace @ [Exec q []]) qs
            = (Some err, (trace @ [Exec q []]) @ execCalls (take (Suc m) qs))"
      using m before at by (rule Cons.IH)
    with first Suc show ?thesis by (simp add: execCalls_def)
  qed
qed

subsection \<open>Claims about the executor\<close>

lemma runSQLMigration_transactional:
  assumes "fs scriptFile = Inr f"
    and "snd (getSQLStatements f direction) = Returns (statements, True)"
  shows "runSQLMigration fs db current scriptFile v direction
           = runInTransaction db current statements v direction"
  using assms by (simp add: runSQLMigration_def)

lemma runSQLMigration_direct:
  assumes "fs scriptFile = Inr f"
    and "snd (getSQLStatements f direction) = Returns (statements, False)"
  shows "runSQLMigration fs db current scriptFile v direction
           = runWithoutTransaction db current statements v direction"
  using assms by (simp add: runSQLMigration_def)

text \<open>
  Claim C1. For a script whose splitter output has the transaction flag true, once the
  transaction has begun: if a statement fails after all the statements before it
  succeeded, the calls made are \<open>Begin\<close>, the statements up to the failing one in their
  order, inside the transaction, and \<open>Rollback\<close>; the version insert is not among
  them, and the error returned is the one the database gave. If all statements and the
  version insert succeed, the calls are \<open>Begin\<close>, all the statements in order, the
  dialect's version insert with the version and the direction as its two arguments,
  and \<open>Commit\<close>, all on the same transaction; what \<open>Commit\<close> answers is returned.
  If the version insert fails, the transaction is rolled back as well and the error of
  the insert is returned; so \<open>Commit\<close> is called only after every statement and the
  insert have succeeded.
\<close>

theorem transactional_migration_atomic:
  assumes "fs scriptFile = Inr f"
    and "snd (getSQLStatements f direction) = Returns (statements, True)"
    and "db [] Begin = None"
  shows
    "(\<forall>n err.
        n < length statements
        \<and> (\<forall>i < n. db (Begin # txCalls (take i statements))
                       (TxExec (statements ! i) []) = None)
        \<and> db (Begin # txCalls (take n statements)) (TxExec (statements ! n) []) = Some err
        \<longrightarrow> runSQLMigration fs db current scriptFile v direction
              = (Returns (Some err), Begin # txCalls (take (Suc n) statements) @ [TxRollback])
            \<and> txInsertVersion current v direction
                \<notin> set (snd (runSQLMigration fs db current scriptFile v direction)))
     \<and> ((\<forall>i < length statements.
            db (Begin # txCalls (take i statements)) (TxExec (statements ! i) []) = None)
          \<and> db (Begin # txCalls statements) (txInsertVersion current v direction) = None
        \<longrightarrow> runSQLMigration fs db current scriptFile v direction
              = (Returns (db (Begin # txCalls statements @ [txInsertVersion current v direction])
                            TxCommit),
                 Begin # txCalls statements @ [txInsertVersion current v direction, TxCommit]))
     \<and> (\<forall>err.
          (\<forall>i < length statements.
             db (Begin # txCalls (take i statements)) (TxExec (statements ! i) []) = None)
          \<and> db (Begin # txCalls statements) (txInsertVersion current v direction) = Some err
          \<longrightarrow> runSQLMigration fs db current scriptFile v direction
                = (Returns (Some err),
                   Begin # txCalls statements
                     @ [txInsertVersion current v direction, TxRollback]))"
proof (intro conjI allI impI)
  fix n err
  assume h: "n < length statements
        \<and> (\<forall>i < n. db (Begin # txCalls (take i statements))
                       (TxExec (statements ! i) []) = None)
        \<and> db (Begin # txCalls (take n statements)) (TxExec (statements ! n) []) = Some err"
  then have "txExecAll db [Begin] statements
               = (Some err, [Begin] @ txCalls (take (Suc n) statements))"
    by (intro txExecAll_first_failure) simp_all
  with assms
  show run: "runSQLMigration fs db current scriptFile v direction
         = (Returns (Some err), Begin # txCalls (take (Suc n) statements) @ [TxRollback])"
    by (simp add: runSQLMigration_transactional [where fs = fs and scriptFile = scriptFile, OF assms(1,2)] runInTransaction_def)
  show "txInsertVersion current v direction
          \<notin> set (snd (runSQLMigration fs db current scriptFile v direction))"
    unfolding run by (auto simp: txInsertVersion_def txCalls_def)
next
  assume h: "(\<forall>i < length statements.
            db (Begin # txCalls (take i statements)) (TxExec (statements ! i) []) = None)
          \<and> db (Begin # txCalls statements) (txInsertVersion current v direction) = None"
  then have "txExecAll db [Begin] statements = (None, [Begin] @ txCalls statements)"
    by (intro txExecAll_all_succeed) simp
  with assms h
  show "runSQLMigration fs db current scriptFile v direction
          = (Returns (db (Begin # txCalls statements @ [txInsertVersion current v direction])
                        TxCommit),
             Begin # txCalls statements @ [txInsertVersion current v direction, TxCommit])"
    by (simp add: runSQLMigration_transactional [where fs = fs and scriptFile = scriptFile, OF assms(1,2)] runInTransaction_def
        txInsertVersion_def GetDialect_def)
next
  fix err
  assume h: "(\<forall>i < length statements.
             db (Begin # txCalls (take i statements)) (TxExec (statements ! i) []) = None)
          \<and> db (Begin # txCalls statements) (txInsertVersion current v direction) = Some err"
  then have "txExecAll db [Begin] statements = (None, [Begin] @ txCalls statements)"
    by (intro txExecAll_all_succeed) simp
  with assms h
  show "runSQLMigration fs db current scriptFile v direction
          = (Returns (Some err),
             Begin # txCalls statements @ [txInsertVersion current v direction, TxRollback])"
    by (simp add: runSQLMigration_transactional [where fs = fs and scriptFile = scriptFile, OF assms(1,2)] runInTransaction_def
        txInsertVersion_def GetDialect_def)
qed

theorem transactional_migration_atomic_witness:
  "oneFile threeStatements ''m.sql'' = Inr threeStatements
   \<and> snd (getSQLStatements threeStatements True)
       = Returns ([''-- +goose Up'' @ [CHR 0x0A] @ ''a;'' @ [CHR 0x0A], ''b;'' @ [CHR 0x0A],
                   ''c;'' @ [CHR 0x0A]], True)
   \<and> runSQLMigration (oneFile threeStatements) (rejectingDB (TxExec (''b;'' @ [CHR 0x0A]) []))
         PostgresDialect ''m.sql'' 7 True
       = (Returns (Some (Foreign ''rejected'')),
          [Begin, TxExec (''-- +goose Up'' @ [CHR 0x0A] @ ''a;'' @ [CHR 0x0A]) [],
           TxExec (''b;'' @ [CHR 0x0A]) [], TxRollback])
   \<and> runSQLMigration (oneFile threeStatements) acceptingDB PostgresDialect ''m.sql'' 7 True
       = (Returns None,
          [Begin, TxExec (''-- +goose Up'' @ [CHR 0x0A] @ ''a;'' @ [CHR 0x0A]) [],
           TxExec (''b;'' @ [CHR 0x0A]) [], TxExec (''c;'' @ [CHR 0x0A]) [],
           TxExec ''INSERT INTO goose_db_version (version_id, is_applied) VALUES ($1, $2);''
             [Int64Arg 7, BoolArg True],
           TxCommit])
   \<and> runSQLMigration (oneFile threeStatements)
         (rejectingDB (txInsertVersion PostgresDialect 7 True)) PostgresDialect ''m.sql'' 7 True
       = (Returns (Some (Foreign ''rejected'')),
          [Begin, TxExec (''-- +goose Up'' @ [CHR 0x0A] @ ''a;'' @ [CHR 0x0A]) [],
           TxExec (''b;'' @ [CHR 0x0A]) [], TxExec (''c;'' @ [CHR 0x0A]) [],
           TxExec ''INSERT INTO goose_db_version (version_id, is_applied) VALUES ($1, $2);''
             [Int64Arg 7, BoolArg True],
           TxRollback])"
proof -
  have h1: "oneFile threeStatements ''m.sql'' = Inr threeStatements"
    by (simp add: oneFile_def)
  have h2: "snd (getSQLStatements threeStatements True)
       = Returns ([''-- +goose Up'' @ [CHR 0x0A] @ ''a;'' @ [CHR 0x0A], ''b;'' @ [CHR 0x0A],
                   ''c;'' @ [CHR 0x0A]], True)"
    by (simp add: threeStatements_def splitter_eval text_eval)
  have b1: "rejectingDB (TxExec (''b;'' @ [CHR 0x0A]) []) [] Begin = None"
    by (simp add: rejectingDB_def)
  have b2: "acceptingDB [] Begin = None"
    by (simp add: acceptingDB_def)
  have f: "runSQLMigration (oneFile threeStatements) (rejectingDB (TxExec (''b;'' @ [CHR 0x0A]) []))
         PostgresDialect ''m.sql'' 7 True
       = (Returns (Some (Foreign ''rejected'')),
          [Begin, TxExec (''-- +goose Up'' @ [CHR 0x0A] @ ''a;'' @ [CHR 0x0A]) [],
           TxExec (''b;'' @ [CHR 0x0A]) [], TxRollback])"
    using transactional_migration_atomic
      [where fs = "oneFile threeStatements" and scriptFile = "''m.sql''"
         and db = "rejectingDB (TxExec (''b;'' @ [CHR 0x0A]) [])", OF h1 h2 b1,
       THEN conjunct1, rule_format, of "Suc 0" "Foreign ''rejected''" PostgresDialect 7]
    by (simp add: rejectingDB_def txCalls_def)
  have g: "runSQLMigration (oneFile threeStatements) acceptingDB PostgresDialect ''m.sql'' 7 True
       = (Returns None,
          [Begin, TxExec (''-- +goose Up'' @ [CHR 0x0A] @ ''a;'' @ [CHR 0x0A]) [],
           TxExec (''b;'' @ [CHR 0x0A]) [], TxExec (''c;'' @ [CHR 0x0A]) [],
           TxExec ''INSERT INTO goose_db_version (version_id, is_applied) VALUES ($1, $2);''
             [Int64Arg 7, BoolArg True],
           TxCommit])"
    using transactional_migration_atomic
      [where fs = "oneFile threeStatements" and scriptFile = "''m.sql''"
         and db = acceptingDB, OF h1 h2 b2,
       THEN conjunct2, THEN conjunct1, rule_format, of PostgresDialect 7]
    by (simp add: acceptingDB_def txCalls_def txInsertVersion_def)
  have b3: "rejectingDB (txInsertVersion PostgresDialect 7 True) [] Begin = None"
    by (simp add: rejectingDB_def txInsertVersion_def)
  have k: "runSQLMigration (oneFile threeStatements)
         (rejectingDB (txInsertVersion PostgresDialect 7 True)) PostgresDialect ''m.sql'' 7 True
       = (Returns (Some (Foreign ''rejected'')),
          [Begin, TxExec (''-- +goose Up'' @ [CHR 0x0A] @ ''a;'' @ [CHR 0x0A]) [],
           TxExec (''b;'' @ [CHR 0x0A]) [], TxExec (''c;'' @ [CHR 0x0A]) [],
           TxExec ''INSERT INTO goose_db_version (version_id, is_applied) VALUES ($1, $2);''
             [Int64Arg 7, BoolArg True],
           TxRollback])"
    using transactional_migration_atomic
      [where fs = "oneFile threeStatements" and scriptFile = "''m.sql''"
         and db = "rejectingDB (txInsertVersion PostgresDialect 7 True)", OF h1 h2 b3,
       THEN conjunct2, THEN conjunct2, rule_format,
       of PostgresDialect 7 "Foreign ''rejected''"]
    by (simp add: rejectingDB_def txCalls_def txInsertVersion_def)
  from h1 h2 f g k show ?thesis by (intro conjI)
qed

text \<open>
  Claim C3. For a script whose splitter output has the transaction flag false: if a
  statement fails after all the statements before it succeeded, the calls made are
  the statements up to the failing one, in order, each directly on the connection;
  no transaction is begun or rolled back, no later statement and no version insert is
  run, and the error is returned. If all statements succeed, the calls are all the
  statements and then the version insert, directly on the connection, and what the
  insert answers is returned.
\<close>

theorem direct_migration_stops_at_failure:
  assumes "fs scriptFile = Inr f"
    and "snd (getSQLStatements f direction) = Returns (statements, False)"
  shows
    "(\<forall>n err.
        n < length statements
        \<and> (\<forall>i < n. db (execCalls (take i statements)) (Exec (statements ! i) []) = None)
        \<and> db (execCalls (take n statements)) (Exec (statements ! n) []) = Some err
        \<longrightarrow> runSQLMigration fs db current scriptFile v direction
              = (Returns (Some err), execCalls (take (Suc n) statements))
            \<and> insertVersion current v direction
                \<notin> set (snd (runSQLMigration fs db current scriptFile v direction)))
     \<and> ((\<forall>i < length statements.
            db (execCalls (take i statements)) (Exec (statements ! i) []) = None)
        \<longrightarrow> runSQLMigration fs db current scriptFile v direction
              = (Returns (db (execCalls statements) (insertVersion current v direction)),
                 execCalls statements @ [insertVersion current v direction]))"
proof (intro conjI allI impI)
  fix n err
  assume h: "n < length statements
        \<and> (\<forall>i < n. db (execCalls (take i statements)) (Exec (statements ! i) []) = None)
        \<and> db (execCalls (take n statements)) (Exec (statements ! n) []) = Some err"
  then have "execAll db [] statements = (Some err, [] @ execCalls (take (Suc n) statements))"
    by (intro execAll_first_failure) simp_all
  then
  show run: "runSQLMigration fs db current scriptFile v direction
         = (Returns (Some err), execCalls (take (Suc n) statements))"
    by (simp add: runSQLMigration_direct [where fs = fs and scriptFile = scriptFile, OF assms] runWithoutTransaction_def)
  show "insertVersion current v direction
          \<notin> set (snd (runSQLMigration fs db current scriptFile v direction))"
    unfolding run by (auto simp: insertVersion_def execCalls_def)
next
  assume h: "\<forall>i < length statements.
            db (execCalls (take i statements)) (Exec (statements ! i) []) = None"
  then have "execAll db [] statements = (None, [] @ execCalls statements)"
    by (intro execAll_all_succeed) simp
  then
  show "runSQLMigration fs db current scriptFile v direction
          = (Returns (db (execCalls statements) (insertVersion current v direction)),
             execCalls statements @ [insertVersion current v direction])"
    by (simp add: runSQLMigration_direct [where fs = fs and scriptFile = scriptFile, OF assms] runWithoutTransaction_def
        insertVersion_def GetDialect_def split: option.splits)
qed

theorem direct_migration_stops_at_failure_witness:
  "oneFile threeStatementsNoTx ''m.sql'' = Inr threeStatementsNoTx
   \<and> snd (getSQLStatements threeStatementsNoTx True)
       = Returns ([''-- +goose Up'' @ [CHR 0x0A] @ ''a;'' @ [CHR 0x0A], ''b;'' @ [CHR 0x0A],
                   ''c;'' @ [CHR 0x0A]], False)
   \<and> runSQLMigration (oneFile threeStatementsNoTx) (rejectingDB (Exec (''b;'' @ [CHR 0x0A]) []))
         MySQLDialect ''m.sql'' 7 True
       = (Returns (Some (Foreign ''rejected'')),
          [Exec (''-- +goose Up'' @ [CHR 0x0A] @ ''a;'' @ [CHR 0x0A]) [],
           Exec (''b;'' @ [CHR 0x0A]) []])
   \<and> runSQLMigration (oneFile threeStatementsNoTx) acceptingDB MySQLDialect ''m.sql'' 7 True
       = (Returns None,
          [Exec (''-- +goose Up'' @ [CHR 0x0A] @ ''a;'' @ [CHR 0x0A]) [],
           Exec (''b;'' @ [CHR 0x0A]) [], Exec (''c;'' @ [CHR 0x0A]) [],
           Exec ''INSERT INTO goose_db_version (version_id, is_applied) VALUES (?, ?);''
             [Int64Arg 7, BoolArg True]])"
proof -
  have h1: "oneFile threeStatementsNoTx ''m.sql'' = Inr threeStatementsNoTx"
    by (simp add: oneFile_def)
  have h2: "snd (getSQLStatements threeStatementsNoTx True)
       = Returns ([''-- +goose Up'' @ [CHR 0x0A] @ ''a;'' @ [CHR 0x0A], ''b;'' @ [CHR 0x0A],
                   ''c;'' @ [CHR 0x0A]], False)"
    by (simp add: threeStatementsNoTx_def splitter_eval text_eval)
  have f: "runSQLMigration (oneFile threeStatementsNoTx) (rejectingDB (Exec (''b;'' @ [CHR 0x0A]) []))
         MySQLDialect ''m.sql'' 7 True
       = (Returns (Some (Foreign ''rejected'')),
          [Exec (''-- +goose Up'' @ [CHR 0x0A] @ ''a;'' @ [CHR 0x0A]) [],
           Exec (''b;'' @ [CHR 0x0A]) []])"
    using direct_migration_stops_at_failure
      [where fs = "oneFile threeStatementsNoTx" and scriptFile = "''m.sql''", OF h1 h2,
       THEN conjunct1, rule_format,
       of "Suc 0" "rejectingDB (Exec (''b;'' @ [CHR 0x0A]) [])" "Foreign ''rejected''" MySQLDialect 7]
    by (simp add: rejectingDB_def execCalls_def)
  have g: "runSQLMigration (oneFile threeStatementsNoTx) acceptingDB MySQLDialect ''m.sql'' 7 True
       = (Returns None,
          [Exec (''-- +goose Up'' @ [CHR 0x0A] @ ''a;'' @ [CHR 0x0A]) [],
           Exec (''b;'' @ [CHR 0x0A]) [], Exec (''c;'' @ [CHR 0x0A]) [],
           Exec ''INSERT INTO goose_db_version (version_id, is_applied) VALUES (?, ?);''
             [Int64Arg 7, BoolArg True]])"
    using direct_migration_stops_at_failure
      [where fs = "oneFile threeStatementsNoTx" and scriptFile = "''m.sql''", OF h1 h2,
       THEN conjunct2, rule_format, of acceptingDB MySQLDialect 7]
    by (simp add: acceptingDB_def execCalls_def insertVersion_def)
  from h1 h2 f g show ?thesis by (intro conjI)
qed

end
